theory Spec2Isabelle
  imports Main
begin

section \<open>The image endpoints of the registry (registry/images.py)\<close>

text \<open>
  The module holds six HTTP handlers over one blob store and the client's session:
  three reads (layer, json, ancestry) and three pushes (json, layer, checksum), plus
  the helpers \<open>generate_ancestry\<close>, \<open>check_images_list\<close> and \<open>store_checksum\<close>
  and the two decorators \<open>require_completion\<close> and \<open>set_cache_headers\<close>.
  A handler is modelled as a function from the request and the state before it (the
  store and the session) to what the handler returns or raises and the state after it.
\<close>

subsection \<open>Values\<close>

text \<open>
  What \<^verbatim>\<open>json.loads\<close> returns. Numbers are the integers; a fraction is not
  represented (the handlers only test a number for truth).
\<close>

datatype json =
    JNull
  | JBool bool
  | JNum int
  | JStr string
  | JList "json list"
  | JDict "(string \<times> json) list"

text \<open>Python's truth value of a decoded document (\<^verbatim>\<open>if not data\<close>).\<close>

fun truthy :: "json \<Rightarrow> bool" where
  "truthy JNull = False"
| "truthy (JBool b) = b"
| "truthy (JNum n) = (n \<noteq> 0)"
| "truthy (JStr s) = (s \<noteq> [])"
| "truthy (JList xs) = (xs \<noteq> [])"
| "truthy (JDict kvs) = (kvs \<noteq> [])"

text \<open>\<^verbatim>\<open>isinstance(data, dict)\<close>\<close>

fun is_dict :: "json \<Rightarrow> bool" where
  "is_dict (JDict kvs) = True"
| "is_dict v = False"

text \<open>\<^verbatim>\<open>data.get(key)\<close> on a dict: \<open>JNull\<close> (Python's None) for a missing key.\<close>

fun dict_get :: "json \<Rightarrow> string \<Rightarrow> json" where
  "dict_get (JDict kvs) k = (case map_of kvs k of None \<Rightarrow> JNull | Some v \<Rightarrow> v)"
| "dict_get v k = JNull"

text \<open>\<^verbatim>\<open>key in data\<close> on a dict.\<close>

fun dict_has :: "json \<Rightarrow> string \<Rightarrow> bool" where
  "dict_has (JDict kvs) k = (map_of kvs k \<noteq> None)"
| "dict_has v k = False"

text \<open>
  The exceptions a handler can let through. None of them is caught by the module, so
  the handler ends by raising it.
\<close>

datatype exn = IOError | JSONDecodeError | UnboundLocalError | AttributeError | TypeError

text \<open>
  \<^verbatim>\<open>s.split(c)\<close> for a one-character separator: the pieces between the
  separators, one more than there are separators.
\<close>

fun py_split :: "char \<Rightarrow> string \<Rightarrow> string list" where
  "py_split c [] = [[]]"
| "py_split c (x # xs) =
     (if x = c then [] # py_split c xs
      else (case py_split c xs of [] \<Rightarrow> [[x]] | p # ps \<Rightarrow> (x # p) # ps))"

text \<open>\<^verbatim>\<open>str(n)\<close> for a size: the decimal digits.\<close>

fun str_nat :: "nat \<Rightarrow> string" where
  "str_nat n =
     (if n < 10 then [char_of (48 + n)]
      else str_nat (n div 10) @ [char_of (48 + n mod 10)])"

text \<open>\<^verbatim>\<open>needle in haystack\<close> on two strings: a contiguous occurrence.\<close>

fun str_contains :: "string \<Rightarrow> string \<Rightarrow> bool" where
  "str_contains needle [] = (needle = [])"
| "str_contains needle (c # cs) =
     (take (length needle) (c # cs) = needle \<or> str_contains needle cs)"

subsection \<open>The blob store\<close>

text \<open>
  Modelled from the spec: the storage backend (module \<open>storage\<close>) is not among the
  sources. The spec gives it as a key/path-addressed store with
  get/put/exists/remove/stream primitives and leaves the path-naming scheme to it. A
  path is modelled by the path function that made it and that function's arguments, so
  two paths are the same exactly when they are the same attribute of the same key. A
  blob is its bytes.
\<close>

datatype path =
    image_json_path string
  | image_layer_path string
  | image_mark_path string
  | image_checksum_path string
  | image_ancestry_path string
  | images_list_path "string list"

type_synonym blobs = "path \<rightharpoonup> string"

definition exists :: "blobs \<Rightarrow> path \<Rightarrow> bool" where
  "exists st p = (st p \<noteq> None)"

text \<open>Reading a missing path raises IOError (the handlers catch just that).\<close>

definition get_content :: "blobs \<Rightarrow> path \<Rightarrow> exn + string" where
  "get_content st p = (case st p of None \<Rightarrow> Inl IOError | Some b \<Rightarrow> Inr b)"

definition put_content :: "blobs \<Rightarrow> path \<Rightarrow> string \<Rightarrow> blobs" where
  "put_content st p b = st(p \<mapsto> b)"

text \<open>Removing a path that is not there changes nothing.\<close>

definition remove_path :: "blobs \<Rightarrow> path \<Rightarrow> blobs" where
  "remove_path st p = st(p := None)"

definition stream_read :: "blobs \<Rightarrow> path \<Rightarrow> exn + string" where
  "stream_read st p = get_content st p"

definition stream_write :: "blobs \<Rightarrow> path \<Rightarrow> string \<Rightarrow> blobs" where
  "stream_write st p bytes = put_content st p bytes"

text \<open>The size of a missing path raises (OSError in the source, caught where it is used).\<close>

definition get_size :: "blobs \<Rightarrow> path \<Rightarrow> nat option" where
  "get_size st p = map_option length (st p)"

subsection \<open>Session, state, request, response\<close>

text \<open>
  \<^verbatim>\<open>flask.session\<close>: the client-bound dictionary. The module uses two keys:
  \<open>checksum\<close>, the digest list a layer push left for a later checksum push, and
  \<open>repository\<close>, which the authorization gate sets. None is a key that is not there.
\<close>

record session =
  session_checksum :: "string list option"
  session_repository :: "string option"

record state =
  store :: blobs
  session :: session

text \<open>
  The request as the handlers read it: the route's \<open>image_id\<close>, the headers (under
  the names the source looks them up by), the body (\<^verbatim>\<open>flask.request.data\<close>), the
  two input streams of a layer push, the decision of the authorization gate, and the
  text of the Expires header, which the source formats from the clock (one year after
  the request).
\<close>

record request =
  image_id :: string
  headers :: "string \<rightharpoonup> string"
  data :: string
  stream :: string
  wsgi_input :: string
  authorized :: bool
  expires :: string

type_synonym hdrs = "string \<rightharpoonup> string"

text \<open>
  The responses the module builds. Module \<open>toolkit\<close> is not among the sources, so a
  call of it is kept as the call that was made. \<open>ApiError m c\<close> is
  \<^verbatim>\<open>toolkit.api_error(m)\<close> when \<open>c\<close> is None and
  \<^verbatim>\<open>toolkit.api_error(m, c)\<close> otherwise; \<open>FlaskResponse\<close> is
  \<^verbatim>\<open>flask.Response(body, status=, headers=)\<close>; the three \<open>Toolkit\<close> forms are
  \<^verbatim>\<open>toolkit.response()\<close>, \<^verbatim>\<open>toolkit.response(data, headers=, raw=True)\<close> and
  \<^verbatim>\<open>toolkit.response(value, headers=)\<close>. \<open>AuthRequired\<close> is the gate's own answer.
\<close>

datatype response =
    ApiError string "nat option"
  | AuthRequired
  | FlaskResponse "nat option" "string option" hdrs
  | ToolkitResponse
  | ToolkitRaw string hdrs
  | ToolkitJson json hdrs

text \<open>
  What the module calls and the sources do not hold is a parameter of the model: the
  JSON codec of the library (\<open>loads\<close> is None where \<^verbatim>\<open>json.loads\<close> raises
  JSONDecodeError), the two digests of module \<open>checksums\<close> (\<open>hexdigest json_data bytes\<close>
  is the hex digest of the handler seeded with the image's json and fed the stream,
  \<open>compute_tarsum bytes json_data\<close> is None where the source catches IOError or
  TarError), the text the storage backend gives a path and formats a non-string key
  with, and the two configuration facts the layer read consults. Every property below
  holds for all values of these parameters, or names what it needs of them.
\<close>

record env =
  loads :: "string \<Rightarrow> json option"
  dumps :: "json \<Rightarrow> string"
  hexdigest :: "string \<Rightarrow> string \<Rightarrow> string"
  compute_tarsum :: "string \<Rightarrow> string \<Rightarrow> string option"
  path_text :: "path \<Rightarrow> string"
  key_text :: "json \<Rightarrow> string"
  nginx_x_accel_redirect :: "string option"
  local_storage :: bool

type_synonym result = "(exn + response) \<times> state"
type_synonym handler = "env \<Rightarrow> request \<Rightarrow> state \<Rightarrow> result"

text \<open>The key a path function formats from a decoded value: a string is itself.\<close>

definition key_of :: "env \<Rightarrow> json \<Rightarrow> string" where
  "key_of E v = (case v of JStr s \<Rightarrow> s | _ \<Rightarrow> key_text E v)"

subsection \<open>The decorators\<close>

text \<open>
  Modelled from the spec: \<^verbatim>\<open>toolkit.requires_auth\<close> is not among the sources.
  The spec delegates the decision to an external gate; a request the gate turns down
  does not reach the handler. The session is taken as the gate leaves it.
\<close>

definition requires_auth :: "handler \<Rightarrow> handler" where
  "requires_auth f E req s =
     (if authorized req then f E req s else (Inr AuthRequired, s))"

definition require_completion :: "handler \<Rightarrow> handler" where
  "require_completion f E req s =
     (if exists (store s) (image_mark_path (image_id req))
      then (Inr (ApiError ''Image is being uploaded, retry later'' None), s)
      else f E req s)"

text \<open>
  \<open>set_cache_headers\<close> also sets \<^verbatim>\<open>flask.session.modified = False\<close>, so that no
  cookie goes out with a cacheable response; the reads do not write the session, so
  the state has nothing to record for it.
\<close>

definition cache_headers :: "request \<Rightarrow> hdrs" where
  "cache_headers req =
     [''Cache-Control'' \<mapsto> ''public, max-age=31536000'',
      ''Expires'' \<mapsto> expires req,
      ''Last-Modified'' \<mapsto> ''Thu, 01 Jan 1970 00:00:00 GMT'']"

definition set_cache_headers :: "(hdrs \<Rightarrow> handler) \<Rightarrow> handler" where
  "set_cache_headers f E req s =
     (if headers req ''If-Modified-Since'' \<noteq> None
      then (Inr (FlaskResponse (Some 304) None (cache_headers req)), s)
      else f (cache_headers req) E req s)"

subsection \<open>Helpers\<close>

text \<open>The digest list \<open>csums\<close> a layer push computes from the image's json and the bytes.\<close>

definition csums :: "env \<Rightarrow> string \<Rightarrow> string \<Rightarrow> string list" where
  "csums E json_data bytes =
     [''sha256:'' @ hexdigest E json_data bytes] @
     (case compute_tarsum E bytes json_data of None \<Rightarrow> [] | Some t \<Rightarrow> [t])"

text \<open>
  \<open>generate_ancestry\<close>: the store after it, or the exception it raises (a parent with
  no stored chain, a chain that does not decode, a decoded chain with no \<open>insert\<close>).
\<close>

definition generate_ancestry :: "env \<Rightarrow> blobs \<Rightarrow> string \<Rightarrow> json \<Rightarrow> exn + blobs" where
  "generate_ancestry E st iid parent_id =
     (if \<not> truthy parent_id
      then Inr (put_content st (image_ancestry_path iid) (dumps E (JList [JStr iid])))
      else
        (case get_content st (image_ancestry_path (key_of E parent_id)) of
           Inl e \<Rightarrow> Inl e
         | Inr d \<Rightarrow>
            (case loads E d of
               None \<Rightarrow> Inl JSONDecodeError
             | Some (JList chain) \<Rightarrow>
                 Inr (put_content st (image_ancestry_path iid)
                        (dumps E (JList (JStr iid # chain))))
             | Some other \<Rightarrow> Inl AttributeError)))"

text \<open>\<^verbatim>\<open>image_id in images_list\<close> on whatever the list decodes to.\<close>

fun py_in :: "string \<Rightarrow> json \<Rightarrow> exn + bool" where
  "py_in iid (JList xs) = Inr (JStr iid \<in> set xs)"
| "py_in iid (JDict kvs) = Inr (iid \<in> set (map fst kvs))"
| "py_in iid (JStr s) = Inr (str_contains iid s)"
| "py_in iid v = Inl TypeError"

definition check_images_list :: "env \<Rightarrow> state \<Rightarrow> string \<Rightarrow> exn + bool" where
  "check_images_list E s iid =
     (case session_repository (session s) of
        None \<Rightarrow> Inr True
      | Some full_repos_name \<Rightarrow>
          if full_repos_name = [] then Inr True
          else
            (case get_content (store s) (images_list_path (py_split CHR ''/'' full_repos_name)) of
               Inl e \<Rightarrow> Inr False
             | Inr d \<Rightarrow>
                (case loads E d of
                   None \<Rightarrow> Inl JSONDecodeError
                 | Some images_list \<Rightarrow> py_in iid images_list)))"

text \<open>\<open>store_checksum\<close>: the error message it returns (None when it stores) and the store.\<close>

definition store_checksum :: "blobs \<Rightarrow> string \<Rightarrow> string \<Rightarrow> string option \<times> blobs" where
  "store_checksum st iid checksum =
     (if length (py_split CHR '':'' checksum) \<noteq> 2
      then (Some ''Invalid checksum format'', st)
      else (None, put_content st (image_checksum_path iid) checksum))"

subsection \<open>The read handlers\<close>

definition get_image_layer_body :: "hdrs \<Rightarrow> handler" where
  "get_image_layer_body hs E req s =
     (let p = image_layer_path (image_id req);
          streamed =
            (case stream_read (store s) p of
               Inl e \<Rightarrow> (Inr (ApiError ''Image not found'' (Some 404)), s)
             | Inr bytes \<Rightarrow> (Inr (FlaskResponse None (Some bytes) hs), s))
      in
      (case nginx_x_accel_redirect E of
         None \<Rightarrow> streamed
       | Some accel_uri_prefix \<Rightarrow>
           if accel_uri_prefix \<noteq> [] \<and> local_storage E
           then (Inr (FlaskResponse None (Some [])
                       (hs(''X-Accel-Redirect'' \<mapsto>
                             accel_uri_prefix @ ''/'' @ path_text E p))), s)
           else streamed))"

definition get_image_json_body :: "hdrs \<Rightarrow> handler" where
  "get_image_json_body hs E req s =
     (case get_content (store s) (image_json_path (image_id req)) of
        Inl e \<Rightarrow> (Inr (ApiError ''Image not found'' (Some 404)), s)
      | Inr d \<Rightarrow>
          (let hs1 = (case get_size (store s) (image_layer_path (image_id req)) of
                        None \<Rightarrow> hs
                      | Some n \<Rightarrow> hs(''X-Docker-Size'' \<mapsto> str_nat n));
               hs2 = (case store s (image_checksum_path (image_id req)) of
                        None \<Rightarrow> hs1
                      | Some c \<Rightarrow> hs1(''X-Docker-Checksum'' \<mapsto> c))
           in (Inr (ToolkitRaw d hs2), s)))"

definition get_image_ancestry_body :: "hdrs \<Rightarrow> handler" where
  "get_image_ancestry_body hs E req s =
     (case get_content (store s) (image_ancestry_path (image_id req)) of
        Inl e \<Rightarrow> (Inr (ApiError ''Image not found'' (Some 404)), s)
      | Inr d \<Rightarrow>
          (case loads E d of
             None \<Rightarrow> (Inl JSONDecodeError, s)
           | Some v \<Rightarrow> (Inr (ToolkitJson v hs), s)))"

definition get_image_layer :: handler where
  "get_image_layer =
     requires_auth (require_completion (set_cache_headers get_image_layer_body))"

definition get_image_json :: handler where
  "get_image_json =
     requires_auth (require_completion (set_cache_headers get_image_json_body))"

definition get_image_ancestry :: handler where
  "get_image_ancestry =
     requires_auth (require_completion (set_cache_headers get_image_ancestry_body))"

subsection \<open>The push handlers\<close>

text \<open>
  The stream a layer push reads: the WSGI input when the transfer encoding is chunked,
  the request's stream otherwise.
\<close>

definition input_stream :: "request \<Rightarrow> string" where
  "input_stream req =
     (if headers req ''transfer-encoding'' = Some ''chunked''
      then wsgi_input req else stream req)"

definition put_image_layer_body :: handler where
  "put_image_layer_body E req s =
     (case get_content (store s) (image_json_path (image_id req)) of
        Inl e \<Rightarrow> (Inr (ApiError ''Image not found'' (Some 404)), s)
      | Inr json_data \<Rightarrow>
          (let layer_path = image_layer_path (image_id req);
               mark_path = image_mark_path (image_id req)
           in
           if exists (store s) layer_path \<and> \<not> exists (store s) mark_path
           then (Inr (ApiError ''Image already exists'' (Some 409)), s)
           else
             (let s1 = s\<lparr>store := stream_write (store s) layer_path (input_stream req)\<rparr>;
                  cs = csums E json_data (input_stream req)
              in
              (case get_content (store s1) (image_checksum_path (image_id req)) of
                 Inl e \<Rightarrow>
                   (Inr ToolkitResponse,
                    s1\<lparr>session := (session s1)\<lparr>session_checksum := Some cs\<rparr>\<rparr>)
               | Inr checksum \<Rightarrow>
                   if checksum \<notin> set cs
                   then (Inr (ApiError ''Checksum mismatch, ignoring the layer'' None), s1)
                   else (Inr ToolkitResponse,
                         s1\<lparr>store := remove_path (store s1) mark_path\<rparr>)))))"

definition put_image_checksum_body :: handler where
  "put_image_checksum_body E req s =
     (case headers req ''X-Docker-Checksum'' of
        None \<Rightarrow> (Inr (ApiError ''Missing Image's checksum'' None), s)
      | Some checksum \<Rightarrow>
          if checksum = [] then (Inr (ApiError ''Missing Image's checksum'' None), s)
          else if (case session_checksum (session s) of None \<Rightarrow> True | Some cs \<Rightarrow> cs = [])
          then (Inr (ApiError ''Checksum not found in Cookie'' None), s)
          else if \<not> exists (store s) (image_json_path (image_id req))
          then (Inr (ApiError ''Image not found'' (Some 404)), s)
          else
            (let mark_path = image_mark_path (image_id req) in
             if \<not> exists (store s) mark_path
             then (Inr (ApiError ''Cannot set this image checksum'' (Some 409)), s)
             else
               (case store_checksum (store s) (image_id req) checksum of
                  (Some err, st1) \<Rightarrow> (Inr (ApiError err None), s\<lparr>store := st1\<rparr>)
                | (None, st1) \<Rightarrow>
                    if checksum \<notin> set (case session_checksum (session s) of
                                           None \<Rightarrow> [] | Some cs \<Rightarrow> cs)
                    then (Inr (ApiError ''Checksum mismatch'' None), s\<lparr>store := st1\<rparr>)
                    else (Inr ToolkitResponse,
                          s\<lparr>store := remove_path st1 mark_path\<rparr>))))"

text \<open>
  \<open>put_image_json\<close>. When \<^verbatim>\<open>json.loads\<close> raises, the \<^verbatim>\<open>except\<close> clause passes
  and the next line reads \<open>data\<close>, a local that was never bound.
\<close>

definition put_image_json_body :: handler where
  "put_image_json_body E req s =
     (case loads E (data req) of
        None \<Rightarrow> (Inl UnboundLocalError, s)
      | Some d \<Rightarrow>
          if \<not> truthy d \<or> \<not> is_dict d then (Inr (ApiError ''Invalid JSON'' None), s)
          else if \<not> dict_has d ''id''
          then (Inr (ApiError ''Missing key `id' in JSON'' None), s)
          else
            (let (err, st1) =
                   (case headers req ''X-Docker-Checksum'' of
                      None \<Rightarrow> (None, remove_path (store s) (image_checksum_path (image_id req)))
                    | Some checksum \<Rightarrow>
                        if checksum = []
                        then (None, remove_path (store s) (image_checksum_path (image_id req)))
                        else store_checksum (store s) (image_id req) checksum);
                 s1 = s\<lparr>store := st1\<rparr>
             in
             (case err of
                Some msg \<Rightarrow> (Inr (ApiError msg None), s1)
              | None \<Rightarrow>
                  if JStr (image_id req) \<noteq> dict_get d ''id''
                  then (Inr (ApiError ''JSON data contains invalid id'' None), s1)
                  else
                    (case check_images_list E s1 (image_id req) of
                       Inl e \<Rightarrow> (Inl e, s1)
                     | Inr member \<Rightarrow>
                         if \<not> member
                         then (Inr (ApiError ''This image does not belong to the repository'' None), s1)
                         else
                           (let parent_id = dict_get d ''parent'' in
                            if truthy parent_id
                               \<and> \<not> exists (store s1) (image_json_path (key_of E parent_id))
                            then (Inr (ApiError ''Image depends on a non existing parent'' None), s1)
                            else
                              (let json_path = image_json_path (image_id req);
                                   mark_path = image_mark_path (image_id req)
                               in
                               if exists (store s1) json_path \<and> \<not> exists (store s1) mark_path
                               then (Inr (ApiError ''Image already exists'' (Some 409)), s1)
                               else
                                 (let st2 = put_content (store s1) mark_path ''true'';
                                      st3 = put_content st2 json_path (data req)
                                  in
                                  (case generate_ancestry E st3 (image_id req) parent_id of
                                     Inl e \<Rightarrow> (Inl e, s1\<lparr>store := st3\<rparr>)
                                   | Inr st4 \<Rightarrow>
                                       (Inr ToolkitResponse, s1\<lparr>store := st4\<rparr>)))))))))"

definition put_image_layer :: handler where
  "put_image_layer = requires_auth put_image_layer_body"

definition put_image_checksum :: handler where
  "put_image_checksum = requires_auth put_image_checksum_body"

definition put_image_json :: handler where
  "put_image_json = requires_auth put_image_json_body"

subsection \<open>The routes\<close>

datatype route = GET_layer | PUT_layer | PUT_checksum | GET_json | GET_ancestry | PUT_json

fun endpoint :: "route \<Rightarrow> handler" where
  "endpoint GET_layer = get_image_layer"
| "endpoint PUT_layer = put_image_layer"
| "endpoint PUT_checksum = put_image_checksum"
| "endpoint GET_json = get_image_json"
| "endpoint GET_ancestry = get_image_ancestry"
| "endpoint PUT_json = put_image_json"

subsection \<open>A small installation for worked examples\<close>

text \<open>
  A codec that knows four documents, fixed digests, and the requests of a client that
  pushes image \<open>A\<close> and its child \<open>B\<close>. The examples below run the handlers on
  them.
\<close>

definition ex_loads :: "string \<Rightarrow> json option" where
  \<open>ex_loads b =
     (if b = ''{"id": "A"}'' then Some (JDict [(''id'', JStr ''A'')])
      else if b = ''{"id": "B", "parent": "A"}''
      then Some (JDict [(''id'', JStr ''B''), (''parent'', JStr ''A'')])
      else if b = ''["A"]'' then Some (JList [JStr ''A''])
      else if b = ''["B", "A"]'' then Some (JList [JStr ''B'', JStr ''A''])
      else None)\<close>

definition ex_dumps :: "json \<Rightarrow> string" where
  \<open>ex_dumps v =
     (if v = JList [JStr ''A''] then ''["A"]''
      else if v = JList [JStr ''B'', JStr ''A''] then ''["B", "A"]''
      else [])\<close>

definition ex_env :: env where
  "ex_env =
     \<lparr>loads = ex_loads, dumps = ex_dumps,
      hexdigest = (\<lambda>json_data bytes. ''0f''),
      compute_tarsum = (\<lambda>bytes json_data. Some ''tarsum+sha256:0a''),
      path_text = (\<lambda>p. []), key_text = (\<lambda>v. []),
      nginx_x_accel_redirect = None, local_storage = True\<rparr>"

definition ex_request :: request where
  "ex_request =
     \<lparr>image_id = ''A'', headers = Map.empty, data = [], stream = [], wsgi_input = [],
      authorized = True, expires = ''Thu, 04 Nov 2027 12:00:00 GMT''\<rparr>"

definition ex_empty :: state where
  "ex_empty =
     \<lparr>store = Map.empty,
      session = \<lparr>session_checksum = None, session_repository = None\<rparr>\<rparr>"

definition ex_doc_A :: string where
  \<open>ex_doc_A = ''{"id": "A"}''\<close>

definition ex_doc_B :: string where
  \<open>ex_doc_B = ''{"id": "B", "parent": "A"}''\<close>

definition ex_chain_A :: string where
  \<open>ex_chain_A = ''["A"]''\<close>

text \<open>Image \<open>A\<close> after its metadata push: marked, with its json and its chain.\<close>

definition ex_marked :: state where
  "ex_marked =
     \<lparr>store = [image_mark_path ''A'' \<mapsto> ''true'', image_json_path ''A'' \<mapsto> ex_doc_A,
               image_ancestry_path ''A'' \<mapsto> ex_chain_A],
      session = \<lparr>session_checksum = None, session_repository = None\<rparr>\<rparr>"

text \<open>After the layer push that found no checksum: the digests wait in the session.\<close>

definition ex_pending :: state where
  "ex_pending =
     \<lparr>store = [image_mark_path ''A'' \<mapsto> ''true'', image_json_path ''A'' \<mapsto> ex_doc_A,
               image_ancestry_path ''A'' \<mapsto> ex_chain_A,
               image_layer_path ''A'' \<mapsto> ''layer''],
      session = \<lparr>session_checksum = Some [''sha256:0f'', ''tarsum+sha256:0a''],
                 session_repository = None\<rparr>\<rparr>"

text \<open>After the checksum push that matched: the mark is gone, the checksum is stored.\<close>

definition ex_complete :: state where
  "ex_complete =
     \<lparr>store = [image_json_path ''A'' \<mapsto> ex_doc_A,
               image_ancestry_path ''A'' \<mapsto> ex_chain_A,
               image_layer_path ''A'' \<mapsto> ''layer'',
               image_checksum_path ''A'' \<mapsto> ''sha256:0f''],
      session = \<lparr>session_checksum = Some [''sha256:0f'', ''tarsum+sha256:0a''],
                 session_repository = None\<rparr>\<rparr>"

text \<open>
  The same installation with digests that tell two layers apart: the bytes \<open>aa\<close> have
  the sha256 digest \<open>0a\<close> and a tarsum, any other bytes have the digest \<open>0b\<close> and no
  tarsum (the archive does not read).
\<close>

definition ex_digest_env :: env where
  "ex_digest_env =
     ex_env\<lparr>hexdigest := (\<lambda>json_data bytes. if bytes = ''aa'' then ''0a'' else ''0b''),
            compute_tarsum :=
              (\<lambda>bytes json_data. if bytes = ''aa'' then Some ''tarsum+sha256:1a'' else None)\<rparr>"

text \<open>
  Image \<open>A\<close> after a layer push of \<open>aa\<close> that left its digests in the session, a
  retried metadata push that declared \<open>sha256:ee\<close>, and a second layer push, of \<open>bb\<close>,
  that was answered with a mismatch: the layer is \<open>bb\<close>, the session still holds the
  digests of \<open>aa\<close>.
\<close>

definition ex_superseded :: state where
  "ex_superseded =
     \<lparr>store = [image_mark_path ''A'' \<mapsto> ''true'', image_json_path ''A'' \<mapsto> ex_doc_A,
               image_ancestry_path ''A'' \<mapsto> ex_chain_A,
               image_layer_path ''A'' \<mapsto> ''bb'',
               image_checksum_path ''A'' \<mapsto> ''sha256:ee''],
      session = \<lparr>session_checksum = Some [''sha256:0a'', ''tarsum+sha256:1a''],
                 session_repository = None\<rparr>\<rparr>"

text \<open>
  Image \<open>A\<close> after a layer push of \<open>aa\<close> that left its digests in the session, and
  image \<open>B\<close>, child of \<open>A\<close>, after its metadata push: \<open>B\<close> has no layer.
\<close>

definition ex_foreign :: state where
  \<open>ex_foreign =
     \<lparr>store = [image_mark_path ''A'' \<mapsto> ''true'', image_json_path ''A'' \<mapsto> ex_doc_A,
               image_ancestry_path ''A'' \<mapsto> ex_chain_A,
               image_layer_path ''A'' \<mapsto> ''aa'',
               image_mark_path ''B'' \<mapsto> ''true'', image_json_path ''B'' \<mapsto> ex_doc_B,
               image_ancestry_path ''B'' \<mapsto> ''["B", "A"]''],
      session = \<lparr>session_checksum = Some [''sha256:0a'', ''tarsum+sha256:1a''],
                 session_repository = None\<rparr>\<rparr>\<close>

subsection \<open>Two notions the properties are stated with\<close>

text \<open>
  The chain of an image as \<open>get_image_ancestry\<close> and \<open>generate_ancestry\<close> read it:
  the stored blob, decoded, when it is a list.
\<close>

definition ancestry :: "env \<Rightarrow> blobs \<Rightarrow> string \<Rightarrow> json list option" where
  "ancestry E st iid =
     (case st (image_ancestry_path iid) of
        None \<Rightarrow> None
      | Some b \<Rightarrow> (case loads E b of Some (JList chain) \<Rightarrow> Some chain | _ \<Rightarrow> None))"

text \<open>
  A metadata push passes every check \<open>put_image_json\<close> makes before it looks for a
  collision: the body decodes to a dict \<open>d\<close> whose \<open>id\<close> is the route's, a checksum
  header, if any, has one colon, the image is in the session's repository (or there is
  none), and a parent, if any, has its json stored.
\<close>

definition passes_validation :: "env \<Rightarrow> request \<Rightarrow> state \<Rightarrow> json \<Rightarrow> bool" where
  "passes_validation E req s d \<longleftrightarrow>
     loads E (data req) = Some d \<and>
     dict_get d ''id'' = JStr (image_id req) \<and>
     (case headers req ''X-Docker-Checksum'' of
        None \<Rightarrow> True
      | Some c \<Rightarrow> c = [] \<or> length (py_split CHR '':'' c) = 2) \<and>
     check_images_list E s (image_id req) = Inr True \<and>
     (truthy (dict_get d ''parent'') \<longrightarrow>
        exists (store s) (image_json_path (key_of E (dict_get d ''parent''))))"

section \<open>Properties\<close>

subsection \<open>Unfolding and framing lemmas\<close>

lemmas store_ops = exists_def get_content_def put_content_def remove_path_def
  stream_read_def stream_write_def get_size_def

lemmas handler_defs = put_image_json_def put_image_layer_def put_image_checksum_def
  get_image_layer_def get_image_json_def get_image_ancestry_def
  requires_auth_def require_completion_def set_cache_headers_def
  put_image_json_body_def put_image_layer_body_def put_image_checksum_body_def
  get_image_layer_body_def get_image_json_body_def get_image_ancestry_body_def
  generate_ancestry_def check_images_list_def store_checksum_def csums_def input_stream_def
  key_of_def

lemmas ex_defs = ex_env_def ex_loads_def ex_dumps_def ex_request_def ex_empty_def
  ex_doc_A_def ex_chain_A_def ex_marked_def ex_pending_def ex_complete_def

lemma store_checksum_cases:
  "store_checksum st i c =
     (if length (py_split CHR '':'' c) = 2 then (None, st(image_checksum_path i \<mapsto> c))
      else (Some ''Invalid checksum format'', st))"
  by (simp add: store_checksum_def put_content_def)

lemma generate_ancestry_frame:
  assumes "generate_ancestry E st i p = Inr st'" and "q \<noteq> image_ancestry_path i"
  shows "st' q = st q"
  using assms
  by (auto simp: generate_ancestry_def store_ops
        split: if_splits sum.splits option.splits json.splits)

lemma check_images_list_store:
  assumes "\<And>ps. st' (images_list_path ps) = store s (images_list_path ps)"
  shows "check_images_list E (s\<lparr>store := st'\<rparr>) i = check_images_list E s i"
  using assms by (auto simp: check_images_list_def get_content_def split: option.splits)

lemma dict_get_str:
  assumes "dict_get d k = JStr x"
  shows "truthy d \<and> is_dict d \<and> dict_has d k"
  using assms by (cases d) (auto split: option.splits)

lemma csums_nonempty: "csums E json_data bytes \<noteq> []"
  by (simp add: csums_def)

lemma passes_validation_header:
  assumes "passes_validation E req s d"
    and "headers req ''X-Docker-Checksum'' = Some c" and "c \<noteq> []"
  shows "length (py_split CHR '':'' c) = 2"
  using assms by (simp add: passes_validation_def)

subsection \<open>The worked example is a run of the handlers\<close>

lemma ex_run_json:
  "endpoint PUT_json ex_env (ex_request\<lparr>data := ex_doc_A\<rparr>) ex_empty =
     (Inr ToolkitResponse, ex_marked)"
  by (simp add: handler_defs store_ops ex_defs)

lemma ex_run_layer:
  "endpoint PUT_layer ex_env (ex_request\<lparr>stream := ''layer''\<rparr>) ex_marked =
     (Inr ToolkitResponse, ex_pending)"
  by (simp add: handler_defs store_ops ex_defs)

lemma ex_run_checksum:
  "endpoint PUT_checksum ex_env
     (ex_request\<lparr>headers := [''X-Docker-Checksum'' \<mapsto> ''sha256:0f'']\<rparr>) ex_pending =
     (Inr ToolkitResponse, ex_complete)"
  by (simp add: handler_defs store_ops ex_defs fun_upd_twist)

subsection \<open>Reads of an image that is still being uploaded\<close>

text \<open>
  Claim C1. For every image whose mark is in the store, each of the three read
  endpoints (GET layer, GET json, GET ancestry) answers a request the gate admitted
  with the error ``Image is being uploaded, retry later'': not the 404 of a missing
  image, and never the json, the layer or the chain. The store and the session are
  left as they were.
\<close>

theorem read_while_marked:
  assumes "r = GET_layer \<or> r = GET_json \<or> r = GET_ancestry"
    and "authorized req"
    and "exists (store s) (image_mark_path (image_id req))"
  shows "endpoint r E req s =
           (Inr (ApiError ''Image is being uploaded, retry later'' None), s)"
  using assms
  by (auto simp: get_image_layer_def get_image_json_def get_image_ancestry_def
        requires_auth_def require_completion_def)

theorem read_while_marked_witness:
  "endpoint GET_layer ex_env ex_request ex_pending =
     (Inr (ApiError ''Image is being uploaded, retry later'' None), ex_pending)
   \<and> endpoint GET_json ex_env ex_request ex_pending =
     (Inr (ApiError ''Image is being uploaded, retry later'' None), ex_pending)
   \<and> endpoint GET_ancestry ex_env ex_request ex_pending =
     (Inr (ApiError ''Image is being uploaded, retry later'' None), ex_pending)"
proof -
  have a: "authorized ex_request" by (simp add: ex_request_def)
  have m: "exists (store ex_pending) (image_mark_path (image_id ex_request))"
    by (simp add: ex_pending_def ex_request_def exists_def)
  show ?thesis
    using read_while_marked[of GET_layer ex_request ex_pending ex_env, OF _ a m]
      read_while_marked[of GET_json ex_request ex_pending ex_env, OF _ a m]
      read_while_marked[of GET_ancestry ex_request ex_pending ex_env, OF _ a m]
    by simp
qed

subsection \<open>Conditional reads\<close>

text \<open>
  Claim C10. A read request (layer, json or ancestry) that carries an
  If-Modified-Since header and names an image with no mark is answered 304 with the
  cache headers, whatever the store holds for that image: an image that was never
  uploaded gets 304 too, not 404.
\<close>

theorem conditional_read_304:
  assumes "r = GET_layer \<or> r = GET_json \<or> r = GET_ancestry"
    and "authorized req"
    and "\<not> exists (store s) (image_mark_path (image_id req))"
    and "headers req ''If-Modified-Since'' = Some since"
  shows "endpoint r E req s =
           (Inr (FlaskResponse (Some 304) None (cache_headers req)), s)"
  using assms
  by (auto simp: get_image_layer_def get_image_json_def get_image_ancestry_def
        requires_auth_def require_completion_def set_cache_headers_def)

theorem conditional_read_304_witness:
  "store ex_empty (image_json_path ''A'') = None
   \<and> store ex_empty (image_layer_path ''A'') = None
   \<and> endpoint GET_layer ex_env
       (ex_request\<lparr>headers := [''If-Modified-Since'' \<mapsto> ''Thu, 01 Jan 1970 00:00:00 GMT'']\<rparr>)
       ex_empty =
     (Inr (FlaskResponse (Some 304) None
            [''Cache-Control'' \<mapsto> ''public, max-age=31536000'',
             ''Expires'' \<mapsto> ''Thu, 04 Nov 2027 12:00:00 GMT'',
             ''Last-Modified'' \<mapsto> ''Thu, 01 Jan 1970 00:00:00 GMT'']), ex_empty)"
  using conditional_read_304[of GET_layer
      "ex_request\<lparr>headers := [''If-Modified-Since'' \<mapsto> ''Thu, 01 Jan 1970 00:00:00 GMT'']\<rparr>"
      ex_empty "''Thu, 01 Jan 1970 00:00:00 GMT''" ex_env]
  by (simp add: ex_request_def ex_empty_def exists_def cache_headers_def)

subsection \<open>A body that does not decode\<close>

text \<open>
  Claim C8 says that a metadata push whose body is not JSON is answered with a
  validation error. The handler does not get that far: \<^verbatim>\<open>json.loads\<close> raises, the
  \<^verbatim>\<open>except\<close> clause passes without binding \<open>data\<close>, and the test of \<open>data\<close> on the next
  line raises UnboundLocalError, which nothing in the handler catches. The theorem
  states what the handler does.
\<close>

theorem malformed_json_raises:
  assumes "authorized req" and "loads E (data req) = None"
  shows "put_image_json E req s = (Inl UnboundLocalError, s)"
  using assms by (simp add: put_image_json_def requires_auth_def put_image_json_body_def)

theorem malformed_json_raises_witness:
  \<open>put_image_json ex_env (ex_request\<lparr>data := ''{"id": ''\<rparr>) ex_empty =
     (Inl UnboundLocalError, ex_empty)\<close>
  using malformed_json_raises[of \<open>ex_request\<lparr>data := ''{"id": ''\<rparr>\<close> ex_env ex_empty]
  by (simp add: ex_request_def ex_env_def ex_loads_def)

subsection \<open>A checksum push that does not match\<close>

text \<open>
  Claim C9. A checksum push with a well-formed declared checksum (one colon) that
  passes the cookie, existence and mark checks stores the declared checksum before it
  compares it: when the checksum is not among the session's digests, the answer is
  ``Checksum mismatch'' and the store after the request is the store before it with
  the image's checksum blob set to the declared value.
\<close>

theorem checksum_push_mismatch_persists:
  assumes "authorized req"
    and "headers req ''X-Docker-Checksum'' = Some checksum"
    and "length (py_split CHR '':'' checksum) = 2"
    and "session_checksum (session s) = Some cs" and "cs \<noteq> []"
    and "exists (store s) (image_json_path (image_id req))"
    and "exists (store s) (image_mark_path (image_id req))"
    and "checksum \<notin> set cs"
  shows "put_image_checksum E req s =
           (Inr (ApiError ''Checksum mismatch'' None),
            s\<lparr>store := (store s)(image_checksum_path (image_id req) \<mapsto> checksum)\<rparr>)"
proof -
  from assms(3) have "checksum \<noteq> []" by auto
  with assms show ?thesis
    by (simp add: put_image_checksum_def requires_auth_def put_image_checksum_body_def
          store_checksum_cases store_ops Let_def)
qed

theorem checksum_push_mismatch_persists_witness:
  "store ex_pending (image_checksum_path ''A'') = None
   \<and> fst (put_image_checksum ex_env
        (ex_request\<lparr>headers := [''X-Docker-Checksum'' \<mapsto> ''sha256:ff'']\<rparr>) ex_pending) =
       Inr (ApiError ''Checksum mismatch'' None)
   \<and> store (snd (put_image_checksum ex_env
        (ex_request\<lparr>headers := [''X-Docker-Checksum'' \<mapsto> ''sha256:ff'']\<rparr>) ex_pending))
       (image_checksum_path ''A'') = Some ''sha256:ff''"
  using checksum_push_mismatch_persists[of
      "ex_request\<lparr>headers := [''X-Docker-Checksum'' \<mapsto> ''sha256:ff'']\<rparr>" "''sha256:ff''"
      ex_pending "[''sha256:0f'', ''tarsum+sha256:0a'']" ex_env]
  by (simp add: ex_request_def ex_pending_def exists_def)

subsection \<open>Which requests clear the mark\<close>

lemma get_handlers_state:
  "snd (get_image_layer E req s) = s"
  "snd (get_image_json E req s) = s"
  "snd (get_image_ancestry E req s) = s"
  by (auto simp: get_image_layer_def get_image_json_def get_image_ancestry_def
        requires_auth_def require_completion_def set_cache_headers_def
        get_image_layer_body_def get_image_json_body_def get_image_ancestry_body_def Let_def
        split: sum.splits option.splits)

lemma put_image_json_body_mark:
  assumes "exists (store s) (image_mark_path i)"
  shows "exists (store (snd (put_image_json_body E req s))) (image_mark_path i)"
proof -
  have ga: "\<And>st st' p. generate_ancestry E st (image_id req) p = Inr st' \<Longrightarrow>
              st' (image_mark_path i) = st (image_mark_path i)"
    by (rule generate_ancestry_frame) simp_all
  show ?thesis
    using assms
    by (auto simp: put_image_json_body_def store_checksum_cases store_ops Let_def
          dest!: ga split: option.splits sum.splits if_splits)
qed

lemma put_image_layer_mark:
  assumes "put_image_layer E req s = (res, s')"
    and "exists (store s) (image_mark_path i)"
    and "\<not> exists (store s') (image_mark_path i)"
  shows "image_id req = i \<and> authorized req \<and> res = Inr ToolkitResponse \<and>
         (\<exists>json_data c. store s (image_json_path i) = Some json_data \<and>
            store s (image_checksum_path i) = Some c \<and>
            c \<in> set (csums E json_data (input_stream req)))"
  using assms
  by (auto simp: put_image_layer_def requires_auth_def put_image_layer_body_def store_ops Let_def
        split: if_splits sum.splits option.splits)

lemma put_image_checksum_mark:
  assumes "put_image_checksum E req s = (res, s')"
    and "exists (store s) (image_mark_path i)"
    and "\<not> exists (store s') (image_mark_path i)"
  shows "image_id req = i \<and> authorized req \<and> res = Inr ToolkitResponse \<and>
         (\<exists>c cs. headers req ''X-Docker-Checksum'' = Some c \<and>
            session_checksum (session s) = Some cs \<and> c \<in> set cs)"
  using assms
  by (auto simp: put_image_checksum_def requires_auth_def put_image_checksum_body_def
        store_checksum_cases store_ops Let_def
        split: if_splits sum.splits option.splits)

text \<open>
  Claim C4. The mark of an image is removed only by a layer push or a checksum push
  for that image in which the declared checksum is one of the computed digests: if
  an image's mark is in the store before a request to any of the six routes and not
  after it, the request was a layer push whose stored checksum is in the digest list
  computed from the pushed bytes, or a checksum push whose header is in the session's
  digest list, and it was answered with success. So a request answered with a
  checksum mismatch (or any other error, or an exception) leaves the mark in place.
\<close>

theorem mark_cleared_only_on_match:
  assumes "endpoint r E req s = (res, s')"
    and "exists (store s) (image_mark_path i)"
    and "\<not> exists (store s') (image_mark_path i)"
  shows "image_id req = i \<and> authorized req \<and> res = Inr ToolkitResponse \<and>
         (r = PUT_layer \<and>
            (\<exists>json_data c. store s (image_json_path i) = Some json_data \<and>
               store s (image_checksum_path i) = Some c \<and>
               c \<in> set (csums E json_data (input_stream req)))
          \<or> r = PUT_checksum \<and>
            (\<exists>c cs. headers req ''X-Docker-Checksum'' = Some c \<and>
               session_checksum (session s) = Some cs \<and> c \<in> set cs))"
proof (cases r)
  case GET_layer
  with assms get_handlers_state(1)[of E req s] show ?thesis by simp
next
  case PUT_layer
  with assms put_image_layer_mark[of E req s res s' i] show ?thesis by simp
next
  case PUT_checksum
  with assms put_image_checksum_mark[of E req s res s' i] show ?thesis by simp
next
  case GET_json
  with assms get_handlers_state(2)[of E req s] show ?thesis by simp
next
  case GET_ancestry
  with assms get_handlers_state(3)[of E req s] show ?thesis by simp
next
  case PUT_json
  have "snd (put_image_json E req s) = s \<or>
        snd (put_image_json E req s) = snd (put_image_json_body E req s)"
    by (simp add: put_image_json_def requires_auth_def)
  with assms PUT_json put_image_json_body_mark[of s i E req] show ?thesis by auto
qed

text \<open>
  The matching checksum push of the worked example clears the mark of \<open>A\<close>; the
  mismatching one answers with the error and the mark stays.
\<close>

theorem mark_cleared_only_on_match_witness:
  "exists (store ex_pending) (image_mark_path ''A'')
   \<and> endpoint PUT_checksum ex_env
       (ex_request\<lparr>headers := [''X-Docker-Checksum'' \<mapsto> ''sha256:0f'']\<rparr>) ex_pending =
     (Inr ToolkitResponse, ex_complete)
   \<and> store ex_complete (image_mark_path ''A'') = None
   \<and> image_id (ex_request\<lparr>headers := [''X-Docker-Checksum'' \<mapsto> ''sha256:0f'']\<rparr>) = ''A''
   \<and> ''sha256:0f'' \<in> set [''sha256:0f'', ''tarsum+sha256:0a'']
   \<and> exists (store (snd (endpoint PUT_checksum ex_env
        (ex_request\<lparr>headers := [''X-Docker-Checksum'' \<mapsto> ''sha256:ff'']\<rparr>) ex_pending)))
       (image_mark_path ''A'')"
proof -
  have m: "exists (store ex_pending) (image_mark_path ''A'')"
    by (simp add: ex_pending_def exists_def)
  have n: "\<not> exists (store ex_complete) (image_mark_path ''A'')"
    by (simp add: ex_complete_def exists_def)
  have k: "exists (store (snd (endpoint PUT_checksum ex_env
        (ex_request\<lparr>headers := [''X-Docker-Checksum'' \<mapsto> ''sha256:ff'']\<rparr>) ex_pending)))
       (image_mark_path ''A'')"
    by (simp add: handler_defs store_ops ex_defs)
  from mark_cleared_only_on_match[OF ex_run_checksum m n] m n k ex_run_checksum
  show ?thesis by (simp add: exists_def)
qed

subsection \<open>Verification of the declared checksum\<close>

lemma layer_push_verifies:
  assumes "authorized req"
    and "store s (image_json_path (image_id req)) = Some json_data"
    and "\<not> (exists (store s) (image_layer_path (image_id req))
            \<and> \<not> exists (store s) (image_mark_path (image_id req)))"
    and "store s (image_checksum_path (image_id req)) = Some c"
  shows "fst (put_image_layer E req s) =
           (if c \<in> set (csums E json_data (input_stream req)) then Inr ToolkitResponse
            else Inr (ApiError ''Checksum mismatch, ignoring the layer'' None))"
  using assms
  by (auto simp: put_image_layer_def requires_auth_def put_image_layer_body_def store_ops Let_def)

lemma layer_push_defers:
  assumes "authorized req"
    and "store s (image_json_path (image_id req)) = Some json_data"
    and "\<not> (exists (store s) (image_layer_path (image_id req))
            \<and> \<not> exists (store s) (image_mark_path (image_id req)))"
    and "store s (image_checksum_path (image_id req)) = None"
  shows "put_image_layer E req s =
           (Inr ToolkitResponse,
            s\<lparr>store := (store s)(image_layer_path (image_id req) \<mapsto> input_stream req),
              session := (session s)\<lparr>session_checksum :=
                            Some (csums E json_data (input_stream req))\<rparr>\<rparr>)"
  using assms
  by (auto simp: put_image_layer_def requires_auth_def put_image_layer_body_def store_ops Let_def)

lemma checksum_push_verifies:
  assumes "authorized req"
    and "headers req ''X-Docker-Checksum'' = Some v"
    and "length (py_split CHR '':'' v) = 2"
    and "session_checksum (session s) = Some cs" and "cs \<noteq> []"
    and "exists (store s) (image_json_path (image_id req))"
    and "exists (store s) (image_mark_path (image_id req))"
  shows "fst (put_image_checksum E req s) =
           (if v \<in> set cs then Inr ToolkitResponse
            else Inr (ApiError ''Checksum mismatch'' None))"
proof -
  from assms(3) have "v \<noteq> []" by auto
  with assms show ?thesis
    by (simp add: put_image_checksum_def requires_auth_def put_image_checksum_body_def
          store_checksum_cases store_ops Let_def)
qed

lemma put_image_checksum_session:
  "session (snd (put_image_checksum E req s)) = session s"
  by (auto simp: put_image_checksum_def requires_auth_def put_image_checksum_body_def
        store_checksum_cases Let_def split: option.splits)

lemma put_image_json_session:
  "session (snd (put_image_json E req s)) = session s"
  by (auto simp: put_image_json_def requires_auth_def put_image_json_body_def
        store_checksum_cases Let_def split: option.splits sum.splits)

lemma put_image_layer_session:
  assumes "put_image_layer E req s = (res, s')"
    and "session_checksum (session s') \<noteq> session_checksum (session s)"
  shows "\<exists>json_data. store s (image_json_path (image_id req)) = Some json_data \<and>
           session_checksum (session s') =
             Some ((''sha256:'' @ hexdigest E json_data (input_stream req)) #
                   (case compute_tarsum E (input_stream req) json_data of
                      None \<Rightarrow> [] | Some t \<Rightarrow> [t]))"
  using assms
  by (auto simp: put_image_layer_def requires_auth_def put_image_layer_body_def store_ops
        csums_def Let_def split: if_splits sum.splits option.splits)

lemma session_digests_from_layer_push:
  assumes "endpoint r E req s = (res, s')"
    and "session_checksum (session s') \<noteq> session_checksum (session s)"
  shows "r = PUT_layer \<and>
         (\<exists>json_data. store s (image_json_path (image_id req)) = Some json_data \<and>
            session_checksum (session s') =
              Some ((''sha256:'' @ hexdigest E json_data (input_stream req)) #
                    (case compute_tarsum E (input_stream req) json_data of
                       None \<Rightarrow> [] | Some t \<Rightarrow> [t])))"
proof (cases r)
  case GET_layer
  with assms get_handlers_state(1)[of E req s] show ?thesis by simp
next
  case PUT_layer
  with assms put_image_layer_session[of E req s res s'] show ?thesis by simp
next
  case PUT_checksum
  with assms put_image_checksum_session[of E req s] show ?thesis by simp
next
  case GET_json
  with assms get_handlers_state(2)[of E req s] show ?thesis by simp
next
  case GET_ancestry
  with assms get_handlers_state(3)[of E req s] show ?thesis by simp
next
  case PUT_json
  with assms put_image_json_session[of E req s] show ?thesis by simp
qed

text \<open>
  Claim C3, as amended. The declared checksum is accepted exactly when it is in the
  digest list it is compared with, and that list is made of the sha256 digest
  \<open>sha256:\<close> followed by the hex digest of the pushed bytes, and of the tarsum when it
  could be computed.
  \<^item> A layer push (admitted, json stored, no collision) that finds a checksum stored
    for the image succeeds when that checksum is the sha256 digest or the tarsum of
    the bytes it pushes, and answers ``Checksum mismatch, ignoring the layer'' when it
    is neither.
  \<^item> A layer push that finds no checksum succeeds and leaves that digest list, sha256
    digest first, in the client's session.
  \<^item> Every checksum push that passes the checks before the comparison (admitted, a
    header of one colon, a non-empty digest list in the session, json and mark
    stored) succeeds when the declared value is in the session's digest list and
    answers ``Checksum mismatch'' when it is not.
  \<^item> The session's digest list changes only by a layer push, which sets it to the
    digests of the bytes it pushed: the list a checksum push compares with is the one
    the client's latest deferred layer push computed, for whichever image that was.
\<close>

theorem declared_checksum_checked_against_digests:
  "(authorized req \<and> store s (image_json_path (image_id req)) = Some json_data \<and>
    \<not> (exists (store s) (image_layer_path (image_id req))
        \<and> \<not> exists (store s) (image_mark_path (image_id req))) \<and>
    store s (image_checksum_path (image_id req)) = Some c \<longrightarrow>
      fst (put_image_layer E req s) =
        (if c = ''sha256:'' @ hexdigest E json_data (input_stream req)
            \<or> compute_tarsum E (input_stream req) json_data = Some c
         then Inr ToolkitResponse
         else Inr (ApiError ''Checksum mismatch, ignoring the layer'' None)))
   \<and> (authorized req \<and> store s (image_json_path (image_id req)) = Some json_data \<and>
      \<not> (exists (store s) (image_layer_path (image_id req))
          \<and> \<not> exists (store s) (image_mark_path (image_id req))) \<and>
      store s (image_checksum_path (image_id req)) = None \<longrightarrow>
        put_image_layer E req s =
          (Inr ToolkitResponse,
           s\<lparr>store := (store s)(image_layer_path (image_id req) \<mapsto> input_stream req),
             session := (session s)\<lparr>session_checksum :=
               Some ((''sha256:'' @ hexdigest E json_data (input_stream req)) #
                     (case compute_tarsum E (input_stream req) json_data of
                        None \<Rightarrow> [] | Some t \<Rightarrow> [t]))\<rparr>\<rparr>))
   \<and> (authorized req' \<and> headers req' ''X-Docker-Checksum'' = Some v \<and>
      length (py_split CHR '':'' v) = 2 \<and>
      session_checksum (session s') = Some cs \<and> cs \<noteq> [] \<and>
      exists (store s') (image_json_path (image_id req')) \<and>
      exists (store s') (image_mark_path (image_id req')) \<longrightarrow>
        fst (put_image_checksum E req' s') =
          (if v \<in> set cs then Inr ToolkitResponse
           else Inr (ApiError ''Checksum mismatch'' None)))
   \<and> (endpoint r E rq u = (res, u') \<and>
      session_checksum (session u') \<noteq> session_checksum (session u) \<longrightarrow>
        r = PUT_layer \<and>
        (\<exists>jd. store u (image_json_path (image_id rq)) = Some jd \<and>
           session_checksum (session u') =
             Some ((''sha256:'' @ hexdigest E jd (input_stream rq)) #
                   (case compute_tarsum E (input_stream rq) jd of
                      None \<Rightarrow> [] | Some t \<Rightarrow> [t]))))"
proof (intro conjI impI)
  assume a: "authorized req \<and> store s (image_json_path (image_id req)) = Some json_data \<and>
    \<not> (exists (store s) (image_layer_path (image_id req))
        \<and> \<not> exists (store s) (image_mark_path (image_id req))) \<and>
    store s (image_checksum_path (image_id req)) = Some c"
  then have "fst (put_image_layer E req s) =
      (if c \<in> set (csums E json_data (input_stream req)) then Inr ToolkitResponse
       else Inr (ApiError ''Checksum mismatch, ignoring the layer'' None))"
    by (intro layer_push_verifies) simp_all
  moreover have "c \<in> set (csums E json_data (input_stream req)) \<longleftrightarrow>
      c = ''sha256:'' @ hexdigest E json_data (input_stream req)
      \<or> compute_tarsum E (input_stream req) json_data = Some c"
    by (auto simp: csums_def split: option.splits)
  ultimately show "fst (put_image_layer E req s) =
        (if c = ''sha256:'' @ hexdigest E json_data (input_stream req)
            \<or> compute_tarsum E (input_stream req) json_data = Some c
         then Inr ToolkitResponse
         else Inr (ApiError ''Checksum mismatch, ignoring the layer'' None))"
    by simp
next
  assume a: "authorized req \<and> store s (image_json_path (image_id req)) = Some json_data \<and>
      \<not> (exists (store s) (image_layer_path (image_id req))
          \<and> \<not> exists (store s) (image_mark_path (image_id req))) \<and>
      store s (image_checksum_path (image_id req)) = None"
  then have "put_image_layer E req s =
           (Inr ToolkitResponse,
            s\<lparr>store := (store s)(image_layer_path (image_id req) \<mapsto> input_stream req),
              session := (session s)\<lparr>session_checksum :=
                            Some (csums E json_data (input_stream req))\<rparr>\<rparr>)"
    by (intro layer_push_defers) simp_all
  then show "put_image_layer E req s =
          (Inr ToolkitResponse,
           s\<lparr>store := (store s)(image_layer_path (image_id req) \<mapsto> input_stream req),
             session := (session s)\<lparr>session_checksum :=
               Some ((''sha256:'' @ hexdigest E json_data (input_stream req)) #
                     (case compute_tarsum E (input_stream req) json_data of
                        None \<Rightarrow> [] | Some t \<Rightarrow> [t]))\<rparr>\<rparr>)"
    by (simp add: csums_def)
next
  assume "authorized req' \<and> headers req' ''X-Docker-Checksum'' = Some v \<and>
      length (py_split CHR '':'' v) = 2 \<and>
      session_checksum (session s') = Some cs \<and> cs \<noteq> [] \<and>
      exists (store s') (image_json_path (image_id req')) \<and>
      exists (store s') (image_mark_path (image_id req'))"
  then show "fst (put_image_checksum E req' s') =
          (if v \<in> set cs then Inr ToolkitResponse
           else Inr (ApiError ''Checksum mismatch'' None))"
    by (intro checksum_push_verifies) simp_all
next
  assume a: "endpoint r E rq u = (res, u') \<and>
      session_checksum (session u') \<noteq> session_checksum (session u)"
  with session_digests_from_layer_push[of r E rq u res u']
  show "r = PUT_layer" by simp
  from a session_digests_from_layer_push[of r E rq u res u']
  show "\<exists>jd. store u (image_json_path (image_id rq)) = Some jd \<and>
           session_checksum (session u') =
             Some ((''sha256:'' @ hexdigest E jd (input_stream rq)) #
                   (case compute_tarsum E (input_stream rq) jd of
                      None \<Rightarrow> [] | Some t \<Rightarrow> [t]))"
    by simp
qed

lemmas ex_digest_defs = ex_digest_env_def ex_superseded_def ex_foreign_def ex_doc_B_def

lemma ex_run_superseded:
  "snd (endpoint PUT_layer ex_digest_env (ex_request\<lparr>stream := ''bb''\<rparr>)
     (snd (endpoint PUT_json ex_digest_env
        (ex_request\<lparr>data := ex_doc_A,
                     headers := [''X-Docker-Checksum'' \<mapsto> ''sha256:ee'']\<rparr>)
        (snd (endpoint PUT_layer ex_digest_env (ex_request\<lparr>stream := ''aa''\<rparr>)
           ex_marked))))) = ex_superseded"
  by (simp add: handler_defs store_ops ex_defs ex_digest_defs fun_upd_twist)

lemma ex_run_foreign:
  "snd (endpoint PUT_json ex_digest_env (ex_request\<lparr>image_id := ''B'', data := ex_doc_B\<rparr>)
     (snd (endpoint PUT_layer ex_digest_env (ex_request\<lparr>stream := ''aa''\<rparr>)
        ex_marked))) = ex_foreign"
  by (simp add: handler_defs store_ops ex_defs ex_digest_defs fun_upd_twist)

text \<open>
  On the worked example: with the tarsum of \<open>aa\<close> declared beforehand the layer push
  of \<open>aa\<close> succeeds and the layer push of \<open>bb\<close> does not; with nothing declared the
  layer push of \<open>aa\<close> leaves both digests in the session; a checksum push compares
  with the session's list, here the digests of \<open>aa\<close>.
\<close>

theorem declared_checksum_checked_against_digests_witness:
  "fst (put_image_layer ex_digest_env (ex_request\<lparr>stream := ''aa''\<rparr>)
         (ex_marked\<lparr>store := (store ex_marked)
            (image_checksum_path ''A'' \<mapsto> ''tarsum+sha256:1a'')\<rparr>)) = Inr ToolkitResponse
   \<and> fst (put_image_layer ex_digest_env (ex_request\<lparr>stream := ''bb''\<rparr>)
         (ex_marked\<lparr>store := (store ex_marked)
            (image_checksum_path ''A'' \<mapsto> ''tarsum+sha256:1a'')\<rparr>)) =
       Inr (ApiError ''Checksum mismatch, ignoring the layer'' None)
   \<and> session_checksum (session (snd (put_image_layer ex_digest_env
         (ex_request\<lparr>stream := ''aa''\<rparr>) ex_marked))) =
       Some [''sha256:0a'', ''tarsum+sha256:1a'']
   \<and> fst (put_image_checksum ex_digest_env
         (ex_request\<lparr>headers := [''X-Docker-Checksum'' \<mapsto> ''tarsum+sha256:1a'']\<rparr>)
         ex_superseded) = Inr ToolkitResponse
   \<and> fst (put_image_checksum ex_digest_env
         (ex_request\<lparr>headers := [''X-Docker-Checksum'' \<mapsto> ''sha256:ff'']\<rparr>)
         ex_superseded) = Inr (ApiError ''Checksum mismatch'' None)
   \<and> (\<exists>jd. store ex_marked (image_json_path ''A'') = Some jd \<and>
        session_checksum (session (snd (endpoint PUT_layer ex_digest_env
          (ex_request\<lparr>stream := ''aa''\<rparr>) ex_marked))) =
        Some ((''sha256:'' @ hexdigest ex_digest_env jd ''aa'') #
              (case compute_tarsum ex_digest_env ''aa'' jd of None \<Rightarrow> [] | Some t \<Rightarrow> [t])))"
proof -
  let ?aa = "ex_request\<lparr>stream := ''aa''\<rparr>"
  let ?bb = "ex_request\<lparr>stream := ''bb''\<rparr>"
  let ?early = "ex_marked\<lparr>store := (store ex_marked)
            (image_checksum_path ''A'' \<mapsto> ''tarsum+sha256:1a'')\<rparr>"
  let ?ok = "ex_request\<lparr>headers := [''X-Docker-Checksum'' \<mapsto> ''tarsum+sha256:1a'']\<rparr>"
  let ?bad = "ex_request\<lparr>headers := [''X-Docker-Checksum'' \<mapsto> ''sha256:ff'']\<rparr>"
  have i: "input_stream ?aa = ''aa''" "input_stream ?bb = ''bb''"
    by (simp_all add: input_stream_def ex_request_def)
  have 1: "fst (put_image_layer ex_digest_env ?aa ?early) = Inr ToolkitResponse"
    using declared_checksum_checked_against_digests[where req = ?aa and s = ?early
        and json_data = ex_doc_A and c = "''tarsum+sha256:1a''" and E = ex_digest_env] i
    by (simp add: ex_request_def ex_marked_def ex_digest_env_def ex_env_def exists_def)
  have 2: "fst (put_image_layer ex_digest_env ?bb ?early) =
      Inr (ApiError ''Checksum mismatch, ignoring the layer'' None)"
    using declared_checksum_checked_against_digests[where req = ?bb and s = ?early
        and json_data = ex_doc_A and c = "''tarsum+sha256:1a''" and E = ex_digest_env] i
    by (simp add: ex_request_def ex_marked_def ex_digest_env_def ex_env_def exists_def)
  have 3: "session_checksum (session (snd (put_image_layer ex_digest_env ?aa ex_marked))) =
      Some [''sha256:0a'', ''tarsum+sha256:1a'']"
    using declared_checksum_checked_against_digests[where req = ?aa and s = ex_marked
        and json_data = ex_doc_A and E = ex_digest_env] i
    by (simp add: ex_request_def ex_marked_def ex_digest_env_def ex_env_def exists_def)
  have 4: "fst (put_image_checksum ex_digest_env ?ok ex_superseded) = Inr ToolkitResponse"
    using declared_checksum_checked_against_digests[where req' = ?ok and s' = ex_superseded
        and v = "''tarsum+sha256:1a''" and cs = "[''sha256:0a'', ''tarsum+sha256:1a'']"
        and E = ex_digest_env]
    by (simp add: ex_request_def ex_superseded_def exists_def)
  have 5: "fst (put_image_checksum ex_digest_env ?bad ex_superseded) =
      Inr (ApiError ''Checksum mismatch'' None)"
    using declared_checksum_checked_against_digests[where req' = ?bad and s' = ex_superseded
        and v = "''sha256:ff''" and cs = "[''sha256:0a'', ''tarsum+sha256:1a'']"
        and E = ex_digest_env]
    by (simp add: ex_request_def ex_superseded_def exists_def)
  have 6: "\<exists>jd. store ex_marked (image_json_path ''A'') = Some jd \<and>
        session_checksum (session (snd (endpoint PUT_layer ex_digest_env ?aa ex_marked))) =
        Some ((''sha256:'' @ hexdigest ex_digest_env jd ''aa'') #
              (case compute_tarsum ex_digest_env ''aa'' jd of None \<Rightarrow> [] | Some t \<Rightarrow> [t]))"
    using declared_checksum_checked_against_digests[where r = PUT_layer and rq = ?aa
        and u = ex_marked and E = ex_digest_env
        and res = "fst (endpoint PUT_layer ex_digest_env ?aa ex_marked)"
        and u' = "snd (endpoint PUT_layer ex_digest_env ?aa ex_marked)",
        THEN conjunct2, THEN conjunct2, THEN conjunct2] 3 i
    by (simp add: ex_marked_def ex_request_def ex_digest_env_def ex_env_def)
  from 1 2 3 4 5 6 show ?thesis by simp
qed

text \<open>
  Claim C3 as it was stated does not hold of every checksum push. The stored layer
  of \<open>A\<close> is \<open>bb\<close>, whose only digest is \<open>sha256:0b\<close>; the checksum push that declares
  \<open>sha256:0a\<close>, a digest of the superseded layer \<open>aa\<close>, is accepted and clears the
  mark, and the one that declares \<open>sha256:0b\<close> is answered with a mismatch. And \<open>B\<close>,
  for which no layer was ever pushed, is completed by a checksum push that declares a
  digest of the layer of \<open>A\<close>.
\<close>

theorem checksum_push_accepts_foreign_digest:
  "snd (endpoint PUT_layer ex_digest_env (ex_request\<lparr>stream := ''bb''\<rparr>)
     (snd (endpoint PUT_json ex_digest_env
        (ex_request\<lparr>data := ex_doc_A,
                     headers := [''X-Docker-Checksum'' \<mapsto> ''sha256:ee'']\<rparr>)
        (snd (endpoint PUT_layer ex_digest_env (ex_request\<lparr>stream := ''aa''\<rparr>)
           ex_marked))))) = ex_superseded
   \<and> store ex_superseded (image_layer_path ''A'') = Some ''bb''
   \<and> csums ex_digest_env ex_doc_A ''bb'' = [''sha256:0b'']
   \<and> endpoint PUT_checksum ex_digest_env
        (ex_request\<lparr>headers := [''X-Docker-Checksum'' \<mapsto> ''sha256:0a'']\<rparr>) ex_superseded =
      (Inr ToolkitResponse,
       ex_superseded\<lparr>store := (store ex_superseded)
          (image_checksum_path ''A'' \<mapsto> ''sha256:0a'', image_mark_path ''A'' := None)\<rparr>)
   \<and> fst (endpoint PUT_checksum ex_digest_env
        (ex_request\<lparr>headers := [''X-Docker-Checksum'' \<mapsto> ''sha256:0b'']\<rparr>) ex_superseded) =
      Inr (ApiError ''Checksum mismatch'' None)
   \<and> snd (endpoint PUT_json ex_digest_env (ex_request\<lparr>image_id := ''B'', data := ex_doc_B\<rparr>)
       (snd (endpoint PUT_layer ex_digest_env (ex_request\<lparr>stream := ''aa''\<rparr>)
          ex_marked))) = ex_foreign
   \<and> store ex_foreign (image_layer_path ''B'') = None
   \<and> endpoint PUT_checksum ex_digest_env
        (ex_request\<lparr>image_id := ''B'',
                     headers := [''X-Docker-Checksum'' \<mapsto> ''sha256:0a'']\<rparr>) ex_foreign =
      (Inr ToolkitResponse,
       ex_foreign\<lparr>store := (store ex_foreign)
          (image_checksum_path ''B'' \<mapsto> ''sha256:0a'', image_mark_path ''B'' := None)\<rparr>)"
proof -
  have 1: "store ex_superseded (image_layer_path ''A'') = Some ''bb''"
    by (simp add: ex_superseded_def)
  have 2: "csums ex_digest_env ex_doc_A ''bb'' = [''sha256:0b'']"
    by (simp add: csums_def ex_digest_env_def ex_env_def)
  have 3: "endpoint PUT_checksum ex_digest_env
        (ex_request\<lparr>headers := [''X-Docker-Checksum'' \<mapsto> ''sha256:0a'']\<rparr>) ex_superseded =
      (Inr ToolkitResponse,
       ex_superseded\<lparr>store := (store ex_superseded)
          (image_checksum_path ''A'' \<mapsto> ''sha256:0a'', image_mark_path ''A'' := None)\<rparr>)"
    by (simp add: handler_defs store_ops ex_defs ex_digest_defs)
  have 4: "fst (endpoint PUT_checksum ex_digest_env
        (ex_request\<lparr>headers := [''X-Docker-Checksum'' \<mapsto> ''sha256:0b'']\<rparr>) ex_superseded) =
      Inr (ApiError ''Checksum mismatch'' None)"
    by (simp add: handler_defs store_ops ex_defs ex_digest_defs)
  have 5: "store ex_foreign (image_layer_path ''B'') = None"
    by (simp add: ex_foreign_def)
  have 6: "endpoint PUT_checksum ex_digest_env
        (ex_request\<lparr>image_id := ''B'',
                     headers := [''X-Docker-Checksum'' \<mapsto> ''sha256:0a'']\<rparr>) ex_foreign =
      (Inr ToolkitResponse,
       ex_foreign\<lparr>store := (store ex_foreign)
          (image_checksum_path ''B'' \<mapsto> ''sha256:0a'', image_mark_path ''B'' := None)\<rparr>)"
    by (simp add: handler_defs store_ops ex_defs ex_digest_defs)
  from ex_run_superseded 1 2 3 4 ex_run_foreign 5 6 show ?thesis
    by (simp only: simp_thms)
qed

subsection \<open>The write-collision rule\<close>

lemma layer_push_conflict:
  assumes "authorized req"
    and "exists (store s) (image_json_path (image_id req))"
    and "exists (store s) (image_layer_path (image_id req))"
    and "\<not> exists (store s) (image_mark_path (image_id req))"
  shows "put_image_layer E req s = (Inr (ApiError ''Image already exists'' (Some 409)), s)"
  using assms
  by (auto simp: put_image_layer_def requires_auth_def put_image_layer_body_def store_ops)

lemma layer_push_retry:
  assumes "authorized req"
    and "exists (store s) (image_json_path (image_id req))"
    and "exists (store s) (image_mark_path (image_id req))"
  shows "fst (put_image_layer E req s) \<noteq> Inr (ApiError ''Image already exists'' (Some 409)) \<and>
         store (snd (put_image_layer E req s)) (image_layer_path (image_id req)) =
           Some (input_stream req) \<and>
         (store s (image_checksum_path (image_id req)) = None \<longrightarrow>
            fst (put_image_layer E req s) = Inr ToolkitResponse)"
  using assms
  by (auto simp: put_image_layer_def requires_auth_def put_image_layer_body_def store_ops Let_def
        split: option.splits)

lemma metadata_push_conflict:
  assumes "authorized req"
    and "passes_validation E req s d"
    and "exists (store s) (image_json_path (image_id req))"
    and "\<not> exists (store s) (image_mark_path (image_id req))"
  shows "put_image_json E req s =
           (Inr (ApiError ''Image already exists'' (Some 409)),
            s\<lparr>store := (store s)(image_checksum_path (image_id req) :=
                 (case headers req ''X-Docker-Checksum'' of
                    None \<Rightarrow> None | Some c \<Rightarrow> if c = [] then None else Some c))\<rparr>)"
proof -
  from assms(2) have v: "loads E (data req) = Some d"
    "dict_get d ''id'' = JStr (image_id req)"
    "check_images_list E s (image_id req) = Inr True"
    "truthy (dict_get d ''parent'') \<Longrightarrow>
       exists (store s) (image_json_path (key_of E (dict_get d ''parent'')))"
    by (simp_all add: passes_validation_def)
  from v(2) have d: "truthy d" "is_dict d" "dict_has d ''id''"
    using dict_get_str by blast+
  show ?thesis
  proof (cases "headers req ''X-Docker-Checksum''")
    case None
    with assms(1,3,4) v d show ?thesis
      by (simp add: put_image_json_def requires_auth_def put_image_json_body_def
            check_images_list_store store_ops Let_def)
  next
    case (Some c)
    show ?thesis
    proof (cases "c = []")
      case True
      with Some assms(1,3,4) v d show ?thesis
        by (simp add: put_image_json_def requires_auth_def put_image_json_body_def
              check_images_list_store store_ops Let_def)
    next
      case False
      with Some assms(2) have "length (py_split CHR '':'' c) = 2"
        by (simp add: passes_validation_header)
      with False Some assms(1,3,4) v d show ?thesis
        by (simp add: put_image_json_def requires_auth_def put_image_json_body_def
              store_checksum_cases check_images_list_store store_ops Let_def)
    qed
  qed
qed

lemma ancestry_frame:
  assumes "q \<noteq> image_ancestry_path k"
  shows "ancestry E (st(q := b)) k = ancestry E st k"
  using assms by (simp add: ancestry_def)

lemma ancestry_stored:
  assumes "ancestry E st k = Some chain"
  obtains b where "st (image_ancestry_path k) = Some b" and "loads E b = Some (JList chain)"
  using assms by (auto simp: ancestry_def split: option.splits json.splits)

lemma generate_ancestry_root:
  assumes "\<not> truthy parent_id"
  shows "generate_ancestry E st i parent_id =
           Inr (st(image_ancestry_path i \<mapsto> dumps E (JList [JStr i])))"
  using assms by (simp add: generate_ancestry_def put_content_def)

lemma generate_ancestry_child:
  assumes "truthy parent_id"
    and "ancestry E st (key_of E parent_id) = Some chain"
  shows "generate_ancestry E st i parent_id =
           Inr (st(image_ancestry_path i \<mapsto> dumps E (JList (JStr i # chain))))"
proof -
  from assms(2) obtain b where "st (image_ancestry_path (key_of E parent_id)) = Some b"
    and "loads E b = Some (JList chain)" by (rule ancestry_stored)
  with assms(1) show ?thesis
    by (simp add: generate_ancestry_def put_content_def get_content_def)
qed

lemma generate_ancestry_returns:
  assumes "truthy parent_id \<longrightarrow> ancestry E st (key_of E parent_id) \<noteq> None"
  shows "\<exists>st'. generate_ancestry E st i parent_id = Inr st'"
proof (cases "truthy parent_id")
  case False
  then show ?thesis by (simp add: generate_ancestry_root)
next
  case True
  with assms obtain chain where "ancestry E st (key_of E parent_id) = Some chain" by auto
  with True show ?thesis by (simp add: generate_ancestry_child[of parent_id E st chain i])
qed

lemma metadata_push_retry:
  assumes "authorized req"
    and "passes_validation E req s d"
    and "exists (store s) (image_mark_path (image_id req))"
  shows "fst (put_image_json E req s) \<noteq> Inr (ApiError ''Image already exists'' (Some 409)) \<and>
         store (snd (put_image_json E req s)) (image_json_path (image_id req)) = Some (data req) \<and>
         store (snd (put_image_json E req s)) (image_mark_path (image_id req)) = Some ''true'' \<and>
         ((truthy (dict_get d ''parent'') \<longrightarrow>
             ancestry E (store s) (key_of E (dict_get d ''parent'')) \<noteq> None) \<longrightarrow>
            fst (put_image_json E req s) = Inr ToolkitResponse)"
proof -
  from assms(2) have v: "loads E (data req) = Some d"
    "dict_get d ''id'' = JStr (image_id req)"
    "check_images_list E s (image_id req) = Inr True"
    "truthy (dict_get d ''parent'') \<Longrightarrow>
       exists (store s) (image_json_path (key_of E (dict_get d ''parent'')))"
    by (simp_all add: passes_validation_def)
  from v(2) have d: "truthy d" "is_dict d" "dict_has d ''id''"
    using dict_get_str by blast+
  define c0 where "c0 = (case headers req ''X-Docker-Checksum'' of
      None \<Rightarrow> None | Some c \<Rightarrow> if c = [] then None else Some c)"
  define st3 where "st3 = (store s)(image_checksum_path (image_id req) := c0,
      image_mark_path (image_id req) \<mapsto> ''true'', image_json_path (image_id req) \<mapsto> data req)"
  from assms(3) obtain m where m: "store s (image_mark_path (image_id req)) = Some m"
    by (auto simp: exists_def)
  have body: "put_image_json E req s =
      (case generate_ancestry E st3 (image_id req) (dict_get d ''parent'') of
         Inl e \<Rightarrow> (Inl e, s\<lparr>store := st3\<rparr>)
       | Inr st4 \<Rightarrow> (Inr ToolkitResponse, s\<lparr>store := st4\<rparr>))"
  proof (cases "headers req ''X-Docker-Checksum''")
    case None
    with assms(1) m v d show ?thesis
      by (auto simp: put_image_json_def requires_auth_def put_image_json_body_def
            check_images_list_store store_ops Let_def st3_def c0_def split: sum.splits)
  next
    case (Some c)
    show ?thesis
    proof (cases "c = []")
      case True
      with Some assms(1) m v d show ?thesis
        by (auto simp: put_image_json_def requires_auth_def put_image_json_body_def
              check_images_list_store store_ops Let_def st3_def c0_def split: sum.splits)
    next
      case False
      with Some assms(2) have "length (py_split CHR '':'' c) = 2"
        by (simp add: passes_validation_header)
      with False Some assms(1) m v d show ?thesis
        by (auto simp: put_image_json_def requires_auth_def put_image_json_body_def
              store_checksum_cases check_images_list_store store_ops Let_def st3_def c0_def
              split: sum.splits)
    qed
  qed
  have st3_json: "st3 (image_json_path (image_id req)) = Some (data req)"
    and st3_mark: "st3 (image_mark_path (image_id req)) = Some ''true''"
    by (simp_all add: st3_def)
  have anc: "ancestry E st3 k = ancestry E (store s) k" for k
    by (simp add: st3_def ancestry_frame)
  have frame: "generate_ancestry E st3 (image_id req) (dict_get d ''parent'') = Inr st4 \<Longrightarrow>
      st4 (image_json_path (image_id req)) = Some (data req) \<and>
      st4 (image_mark_path (image_id req)) = Some ''true''" for st4
    using generate_ancestry_frame[of E st3 "image_id req" "dict_get d ''parent''" st4]
      st3_json st3_mark by simp
  have ok: "\<exists>st4. generate_ancestry E st3 (image_id req) (dict_get d ''parent'') = Inr st4"
    if "truthy (dict_get d ''parent'') \<longrightarrow>
          ancestry E (store s) (key_of E (dict_get d ''parent'')) \<noteq> None"
    using that by (intro generate_ancestry_returns) (simp add: anc)
  show ?thesis
  proof (cases "generate_ancestry E st3 (image_id req) (dict_get d ''parent'')")
    case (Inl e)
    have "\<not> (truthy (dict_get d ''parent'') \<longrightarrow>
        ancestry E (store s) (key_of E (dict_get d ''parent'')) \<noteq> None)"
    proof
      assume "truthy (dict_get d ''parent'') \<longrightarrow>
        ancestry E (store s) (key_of E (dict_get d ''parent'')) \<noteq> None"
      then obtain st4
        where "generate_ancestry E st3 (image_id req) (dict_get d ''parent'') = Inr st4"
        using ok by blast
      with Inl show False by simp
    qed
    with Inl st3_json st3_mark show ?thesis
      unfolding body by simp
  next
    case (Inr st4)
    with frame[of st4] show ?thesis
      unfolding body by simp
  qed
qed

text \<open>
  Claim C5. For a request the gate admitted:
  \<^item> a layer push for an image whose json and layer are stored and whose mark is not
    is answered 409 ``Image already exists'' and changes nothing;
  \<^item> a layer push for an image whose json and mark are stored is not a conflict: the
    layer blob becomes the pushed bytes, and the answer is success when no checksum is
    stored yet (with a stored checksum, claim C3 says which answer it gets);
  \<^item> a metadata push that passes validation, for an image whose json is stored and
    whose mark is not, is answered 409 ``Image already exists'';
  \<^item> a metadata push that passes validation, for an image whose mark is stored, is not
    a conflict: the json blob becomes the body and the mark is set again, and the
    answer is success when the image has no parent or the parent's chain is stored.
\<close>

theorem write_collision_rule:
  assumes "authorized req"
  shows "(exists (store s) (image_json_path (image_id req)) \<and>
          exists (store s) (image_layer_path (image_id req)) \<and>
          \<not> exists (store s) (image_mark_path (image_id req)) \<longrightarrow>
            put_image_layer E req s = (Inr (ApiError ''Image already exists'' (Some 409)), s))
       \<and> (exists (store s) (image_json_path (image_id req)) \<and>
          exists (store s) (image_mark_path (image_id req)) \<longrightarrow>
            fst (put_image_layer E req s) \<noteq> Inr (ApiError ''Image already exists'' (Some 409)) \<and>
            store (snd (put_image_layer E req s)) (image_layer_path (image_id req)) =
              Some (input_stream req) \<and>
            (store s (image_checksum_path (image_id req)) = None \<longrightarrow>
               fst (put_image_layer E req s) = Inr ToolkitResponse))
       \<and> (passes_validation E req s d \<and>
          exists (store s) (image_json_path (image_id req)) \<and>
          \<not> exists (store s) (image_mark_path (image_id req)) \<longrightarrow>
            fst (put_image_json E req s) = Inr (ApiError ''Image already exists'' (Some 409)))
       \<and> (passes_validation E req s d \<and>
          exists (store s) (image_mark_path (image_id req)) \<longrightarrow>
            fst (put_image_json E req s) \<noteq> Inr (ApiError ''Image already exists'' (Some 409)) \<and>
            store (snd (put_image_json E req s)) (image_json_path (image_id req)) =
              Some (data req) \<and>
            store (snd (put_image_json E req s)) (image_mark_path (image_id req)) =
              Some ''true'' \<and>
            ((truthy (dict_get d ''parent'') \<longrightarrow>
                ancestry E (store s) (key_of E (dict_get d ''parent'')) \<noteq> None) \<longrightarrow>
               fst (put_image_json E req s) = Inr ToolkitResponse))"
proof (intro conjI)
  show "exists (store s) (image_json_path (image_id req)) \<and>
          exists (store s) (image_layer_path (image_id req)) \<and>
          \<not> exists (store s) (image_mark_path (image_id req)) \<longrightarrow>
            put_image_layer E req s = (Inr (ApiError ''Image already exists'' (Some 409)), s)"
    using assms layer_push_conflict[of req s E] by blast
  show "exists (store s) (image_json_path (image_id req)) \<and>
          exists (store s) (image_mark_path (image_id req)) \<longrightarrow>
            fst (put_image_layer E req s) \<noteq> Inr (ApiError ''Image already exists'' (Some 409)) \<and>
            store (snd (put_image_layer E req s)) (image_layer_path (image_id req)) =
              Some (input_stream req) \<and>
            (store s (image_checksum_path (image_id req)) = None \<longrightarrow>
               fst (put_image_layer E req s) = Inr ToolkitResponse)"
    using assms layer_push_retry[of req s E] by blast
  show "passes_validation E req s d \<and>
          exists (store s) (image_json_path (image_id req)) \<and>
          \<not> exists (store s) (image_mark_path (image_id req)) \<longrightarrow>
            fst (put_image_json E req s) = Inr (ApiError ''Image already exists'' (Some 409))"
    using assms metadata_push_conflict[of req E s d] by simp
  show "passes_validation E req s d \<and>
          exists (store s) (image_mark_path (image_id req)) \<longrightarrow>
            fst (put_image_json E req s) \<noteq> Inr (ApiError ''Image already exists'' (Some 409)) \<and>
            store (snd (put_image_json E req s)) (image_json_path (image_id req)) =
              Some (data req) \<and>
            store (snd (put_image_json E req s)) (image_mark_path (image_id req)) =
              Some ''true'' \<and>
            ((truthy (dict_get d ''parent'') \<longrightarrow>
                ancestry E (store s) (key_of E (dict_get d ''parent'')) \<noteq> None) \<longrightarrow>
               fst (put_image_json E req s) = Inr ToolkitResponse)"
    using assms metadata_push_retry[of req E s d] by blast
qed

text \<open>
  On the worked example: a layer push and a metadata push for the complete image are
  both answered 409; the same pushes for the image while it is marked go through and
  overwrite the layer and the json.
\<close>

theorem write_collision_rule_witness:
  "put_image_layer ex_env (ex_request\<lparr>stream := ''layer 2''\<rparr>) ex_complete =
     (Inr (ApiError ''Image already exists'' (Some 409)), ex_complete)
   \<and> fst (put_image_layer ex_env (ex_request\<lparr>stream := ''layer 2''\<rparr>) ex_marked) =
       Inr ToolkitResponse
   \<and> store (snd (put_image_layer ex_env (ex_request\<lparr>stream := ''layer 2''\<rparr>) ex_marked))
       (image_layer_path ''A'') = Some ''layer 2''
   \<and> fst (put_image_json ex_env (ex_request\<lparr>data := ex_doc_A\<rparr>) ex_complete) =
       Inr (ApiError ''Image already exists'' (Some 409))
   \<and> fst (put_image_json ex_env (ex_request\<lparr>data := ex_doc_A\<rparr>) ex_pending) =
       Inr ToolkitResponse
   \<and> store (snd (put_image_json ex_env (ex_request\<lparr>data := ex_doc_A\<rparr>) ex_pending))
       (image_json_path ''A'') = Some ex_doc_A"
proof -
  let ?L = "ex_request\<lparr>stream := ''layer 2''\<rparr>"
  let ?M = "ex_request\<lparr>data := ex_doc_A\<rparr>"
  let ?d = "JDict [(''id'', JStr ''A'')]"
  have aL: "authorized ?L" and aM: "authorized ?M"
    by (simp_all add: ex_request_def)
  have v: "passes_validation ex_env ?M s ?d" if "session_repository (session s) = None" for s
    using that
    by (simp add: passes_validation_def check_images_list_def ex_request_def ex_env_def
          ex_loads_def ex_doc_A_def)
  have vc: "passes_validation ex_env ?M ex_complete ?d"
    by (rule v) (simp add: ex_complete_def)
  have vp: "passes_validation ex_env ?M ex_pending ?d"
    by (rule v) (simp add: ex_pending_def)
  have i: "input_stream ?L = ''layer 2''"
    by (simp add: input_stream_def ex_request_def)
  show ?thesis
    using write_collision_rule[OF aL, of ex_complete ex_env ?d]
      write_collision_rule[OF aL, of ex_marked ex_env ?d]
      write_collision_rule[OF aM, of ex_complete ex_env ?d]
      write_collision_rule[OF aM, of ex_pending ex_env ?d] vc vp i
    by (simp add: ex_request_def ex_complete_def ex_marked_def ex_pending_def exists_def)
qed

subsection \<open>The ancestry chain\<close>

lemma ancestry_written:
  assumes "loads E (dumps E (JList chain)) = Some (JList chain)"
  shows "ancestry E (st(image_ancestry_path i \<mapsto> dumps E (JList chain))) i = Some chain"
  using assms by (simp add: ancestry_def)

text \<open>
  Claim C6. \<open>generate_ancestry image_id parent_id\<close>: with no parent it writes the
  one-element chain \<open>[image_id]\<close>; with a parent whose chain is stored it writes that
  chain with \<open>image_id\<close> put in front. So, where the written blob decodes to what was
  encoded, the chain of the image read back after the call has \<open>image_id\<close> as its
  head and the parent's chain as its tail; the parent's own chain is untouched
  (the parent being another image).
\<close>

theorem generate_ancestry_prepends:
  "(\<not> truthy parent_id \<longrightarrow>
      generate_ancestry E st i parent_id =
        Inr (st(image_ancestry_path i \<mapsto> dumps E (JList [JStr i]))))
   \<and> (truthy parent_id \<and> ancestry E st (key_of E parent_id) = Some chain \<longrightarrow>
        generate_ancestry E st i parent_id =
          Inr (st(image_ancestry_path i \<mapsto> dumps E (JList (JStr i # chain)))))
   \<and> (truthy parent_id \<and> ancestry E st (key_of E parent_id) = Some chain \<and>
      loads E (dumps E (JList (JStr i # chain))) = Some (JList (JStr i # chain)) \<and>
      generate_ancestry E st i parent_id = Inr st' \<longrightarrow>
        (\<exists>chain'. ancestry E st' i = Some chain' \<and> hd chain' = JStr i \<and> tl chain' = chain) \<and>
        (key_of E parent_id \<noteq> i \<longrightarrow> ancestry E st' (key_of E parent_id) = Some chain))"
proof (intro conjI impI)
  assume "\<not> truthy parent_id"
  then show "generate_ancestry E st i parent_id =
        Inr (st(image_ancestry_path i \<mapsto> dumps E (JList [JStr i])))"
    by (rule generate_ancestry_root)
next
  assume "truthy parent_id \<and> ancestry E st (key_of E parent_id) = Some chain"
  then show "generate_ancestry E st i parent_id =
          Inr (st(image_ancestry_path i \<mapsto> dumps E (JList (JStr i # chain))))"
    using generate_ancestry_child[of parent_id E st chain i] by simp
next
  assume a: "truthy parent_id \<and> ancestry E st (key_of E parent_id) = Some chain \<and>
      loads E (dumps E (JList (JStr i # chain))) = Some (JList (JStr i # chain)) \<and>
      generate_ancestry E st i parent_id = Inr st'"
  with generate_ancestry_child[of parent_id E st chain i]
  have st': "st' = st(image_ancestry_path i \<mapsto> dumps E (JList (JStr i # chain)))"
    by simp
  from a have "ancestry E st' i = Some (JStr i # chain)"
    unfolding st' by (intro ancestry_written) simp
  then show "\<exists>chain'. ancestry E st' i = Some chain' \<and> hd chain' = JStr i \<and> tl chain' = chain"
    by simp
  {
    assume "key_of E parent_id \<noteq> i"
    with a show "ancestry E st' (key_of E parent_id) = Some chain"
      unfolding st' by (simp add: ancestry_frame)
  }
qed

text \<open>
  The scenario of the spec: \<open>A\<close> without a parent gets the chain \<open>["A"]\<close>, and \<open>B\<close> with
  parent \<open>A\<close> gets \<open>["B", "A"]\<close>.
\<close>

theorem generate_ancestry_prepends_witness:
  \<open>generate_ancestry ex_env Map.empty ''A'' JNull =
     Inr [image_ancestry_path ''A'' \<mapsto> ''["A"]'']
   \<and> generate_ancestry ex_env [image_ancestry_path ''A'' \<mapsto> ''["A"]''] ''B'' (JStr ''A'') =
     Inr [image_ancestry_path ''A'' \<mapsto> ''["A"]'', image_ancestry_path ''B'' \<mapsto> ''["B", "A"]'']
   \<and> (\<exists>chain'.
        ancestry ex_env
          [image_ancestry_path ''A'' \<mapsto> ''["A"]'', image_ancestry_path ''B'' \<mapsto> ''["B", "A"]'']
          ''B'' = Some chain' \<and>
        hd chain' = JStr ''B'' \<and> tl chain' = [JStr ''A''])
   \<and> ancestry ex_env
        [image_ancestry_path ''A'' \<mapsto> ''["A"]'', image_ancestry_path ''B'' \<mapsto> ''["B", "A"]'']
        ''A'' = Some [JStr ''A'']\<close>
proof -
  let ?sA = \<open>[image_ancestry_path ''A'' \<mapsto> ''["A"]'']\<close>
  let ?sB = \<open>[image_ancestry_path ''A'' \<mapsto> ''["A"]'',
              image_ancestry_path ''B'' \<mapsto> ''["B", "A"]'']\<close>
  have k: "key_of ex_env (JStr ''A'') = ''A''"
    by (simp add: key_of_def)
  have pa: "ancestry ex_env ?sA ''A'' = Some [JStr ''A'']"
    by (simp add: ancestry_def ex_env_def ex_loads_def)
  have rt: "loads ex_env (dumps ex_env (JList [JStr ''B'', JStr ''A''])) =
      Some (JList [JStr ''B'', JStr ''A''])"
    by (simp add: ex_env_def ex_loads_def ex_dumps_def)
  have dA: \<open>dumps ex_env (JList [JStr ''A'']) = ''["A"]''\<close>
    and dB: \<open>dumps ex_env (JList [JStr ''B'', JStr ''A'']) = ''["B", "A"]''\<close>
    by (simp_all add: ex_env_def ex_dumps_def)
  have root: "generate_ancestry ex_env Map.empty ''A'' JNull = Inr ?sA"
    using generate_ancestry_prepends[where parent_id = JNull and E = ex_env
        and st = Map.empty and i = "''A''"] dA
    by simp
  have child: "generate_ancestry ex_env ?sA ''B'' (JStr ''A'') = Inr ?sB"
    using generate_ancestry_prepends[where parent_id = "JStr ''A''" and E = ex_env
        and st = ?sA and i = "''B''" and chain = "[JStr ''A'']"] k pa dB
    by simp
  from generate_ancestry_prepends[where parent_id = "JStr ''A''" and E = ex_env
        and st = ?sA and i = "''B''" and chain = "[JStr ''A'']" and st' = ?sB] k pa rt child dB
  have "(\<exists>chain'. ancestry ex_env ?sB ''B'' = Some chain' \<and>
           hd chain' = JStr ''B'' \<and> tl chain' = [JStr ''A'']) \<and>
        ancestry ex_env ?sB ''A'' = Some [JStr ''A'']"
    by simp
  with root child show ?thesis by simp
qed

subsection \<open>What a rejected metadata push does to the checksum\<close>

text \<open>
  Claim C2 says that a metadata push that ends in a validation error (id mismatch,
  repository membership, missing parent) or in a 409 leaves the store unchanged, the
  stored checksum in particular. The handler does otherwise: it stores the checksum
  of the header, or removes the stored one when there is no header, before it makes
  these four checks. The theorem states what the handler does: whenever a push whose
  body is a dict with an \<open>id\<close> is answered with an error, the store after it is the
  store before it with the checksum blob of the image removed (no header, or an empty
  one), replaced by the header (one colon) or as it was (no other case: the header is
  refused as malformed).
\<close>

theorem metadata_push_error_changes_checksum:
  assumes "authorized req"
    and "loads E (data req) = Some d" and "truthy d" and "is_dict d" and "dict_has d ''id''"
    and "put_image_json E req s = (Inr (ApiError msg code), s')"
  shows "store s' = (store s)(image_checksum_path (image_id req) :=
           (case headers req ''X-Docker-Checksum'' of
              None \<Rightarrow> None
            | Some c \<Rightarrow> if c = [] then None
                        else if length (py_split CHR '':'' c) = 2 then Some c
                        else store s (image_checksum_path (image_id req))))"
  using assms
  by (auto simp: put_image_json_def requires_auth_def put_image_json_body_def
        store_checksum_cases store_ops Let_def
        split: option.splits sum.splits if_splits)

text \<open>
  On the complete image of the worked example: a push with no checksum header is
  answered 409 and the stored checksum is gone; a push whose body names another image
  is answered ``JSON data contains invalid id'' and the stored checksum is the
  header's.
\<close>

theorem metadata_push_error_changes_checksum_witness:
  "store ex_complete (image_checksum_path ''A'') = Some ''sha256:0f''
   \<and> fst (put_image_json ex_env (ex_request\<lparr>data := ex_doc_A\<rparr>) ex_complete) =
       Inr (ApiError ''Image already exists'' (Some 409))
   \<and> store (snd (put_image_json ex_env (ex_request\<lparr>data := ex_doc_A\<rparr>) ex_complete))
       (image_checksum_path ''A'') = None
   \<and> fst (put_image_json ex_env
        (ex_request\<lparr>data := ex_doc_B, headers := [''X-Docker-Checksum'' \<mapsto> ''sha256:ff'']\<rparr>)
        ex_complete) =
       Inr (ApiError ''JSON data contains invalid id'' None)
   \<and> store (snd (put_image_json ex_env
        (ex_request\<lparr>data := ex_doc_B, headers := [''X-Docker-Checksum'' \<mapsto> ''sha256:ff'']\<rparr>)
        ex_complete))
       (image_checksum_path ''A'') = Some ''sha256:ff''"
proof -
  let ?r1 = "ex_request\<lparr>data := ex_doc_A\<rparr>"
  let ?r2 = "ex_request\<lparr>data := ex_doc_B, headers := [''X-Docker-Checksum'' \<mapsto> ''sha256:ff'']\<rparr>"
  have f1: "fst (put_image_json ex_env ?r1 ex_complete) =
      Inr (ApiError ''Image already exists'' (Some 409))"
    by (simp add: handler_defs store_ops ex_defs)
  have f2: "fst (put_image_json ex_env ?r2 ex_complete) =
      Inr (ApiError ''JSON data contains invalid id'' None)"
    by (simp add: handler_defs store_ops ex_defs ex_doc_B_def)
  have s1: "store (snd (put_image_json ex_env ?r1 ex_complete)) =
      (store ex_complete)(image_checksum_path ''A'' := None)"
    using metadata_push_error_changes_checksum[of ?r1 ex_env "JDict [(''id'', JStr ''A'')]"
        ex_complete "''Image already exists''" "Some 409"
        "snd (put_image_json ex_env ?r1 ex_complete)"] f1
    by (simp add: ex_request_def ex_env_def ex_loads_def ex_doc_A_def prod_eq_iff)
  have s2: "store (snd (put_image_json ex_env ?r2 ex_complete)) =
      (store ex_complete)(image_checksum_path ''A'' \<mapsto> ''sha256:ff'')"
    using metadata_push_error_changes_checksum[of ?r2 ex_env
        "JDict [(''id'', JStr ''B''), (''parent'', JStr ''A'')]"
        ex_complete "''JSON data contains invalid id''" None
        "snd (put_image_json ex_env ?r2 ex_complete)"] f2
    by (simp add: ex_request_def ex_env_def ex_loads_def ex_doc_B_def prod_eq_iff)
  show ?thesis
    unfolding s1 s2 using f1 f2 by (simp add: ex_complete_def)
qed

subsection \<open>The checksum of a complete image\<close>

text \<open>
  Claim C7 says that the checksum of an image whose mark has been cleared is never
  removed or changed again. The metadata push breaks this, by the same order of
  statements as in claim C2: for a complete image (json stored, mark not) a push that
  passes validation is refused with 409, the image stays complete, and its checksum
  blob is by then what the header of the refused push says: removed when there is no
  header (or an empty one), the header's value otherwise.
\<close>

theorem complete_image_checksum_rewritten:
  assumes "authorized req"
    and "passes_validation E req s d"
    and "exists (store s) (image_json_path (image_id req))"
    and "\<not> exists (store s) (image_mark_path (image_id req))"
  shows "fst (put_image_json E req s) = Inr (ApiError ''Image already exists'' (Some 409)) \<and>
         \<not> exists (store (snd (put_image_json E req s))) (image_mark_path (image_id req)) \<and>
         store (snd (put_image_json E req s)) (image_checksum_path (image_id req)) =
           (case headers req ''X-Docker-Checksum'' of
              None \<Rightarrow> None | Some c \<Rightarrow> if c = [] then None else Some c)"
  using assms(3,4) metadata_push_conflict[OF assms]
  by (simp add: exists_def)

text \<open>
  The complete image of the worked example is what the three pushes produce from the
  empty store; a fourth request, a metadata push with another checksum, is refused
  and replaces the verified checksum.
\<close>

theorem complete_image_checksum_rewritten_witness:
  "snd (endpoint PUT_checksum ex_env
         (ex_request\<lparr>headers := [''X-Docker-Checksum'' \<mapsto> ''sha256:0f'']\<rparr>)
         (snd (endpoint PUT_layer ex_env (ex_request\<lparr>stream := ''layer''\<rparr>)
            (snd (endpoint PUT_json ex_env (ex_request\<lparr>data := ex_doc_A\<rparr>) ex_empty))))) =
     ex_complete
   \<and> store ex_complete (image_mark_path ''A'') = None
   \<and> store ex_complete (image_checksum_path ''A'') = Some ''sha256:0f''
   \<and> fst (put_image_json ex_env
        (ex_request\<lparr>data := ex_doc_A, headers := [''X-Docker-Checksum'' \<mapsto> ''sha256:ff'']\<rparr>)
        ex_complete) =
       Inr (ApiError ''Image already exists'' (Some 409))
   \<and> store (snd (put_image_json ex_env
        (ex_request\<lparr>data := ex_doc_A, headers := [''X-Docker-Checksum'' \<mapsto> ''sha256:ff'']\<rparr>)
        ex_complete)) (image_mark_path ''A'') = None
   \<and> store (snd (put_image_json ex_env
        (ex_request\<lparr>data := ex_doc_A, headers := [''X-Docker-Checksum'' \<mapsto> ''sha256:ff'']\<rparr>)
        ex_complete)) (image_checksum_path ''A'') = Some ''sha256:ff''"
proof -
  let ?r = "ex_request\<lparr>data := ex_doc_A, headers := [''X-Docker-Checksum'' \<mapsto> ''sha256:ff'']\<rparr>"
  have run: "snd (endpoint PUT_checksum ex_env
         (ex_request\<lparr>headers := [''X-Docker-Checksum'' \<mapsto> ''sha256:0f'']\<rparr>)
         (snd (endpoint PUT_layer ex_env (ex_request\<lparr>stream := ''layer''\<rparr>)
            (snd (endpoint PUT_json ex_env (ex_request\<lparr>data := ex_doc_A\<rparr>) ex_empty))))) =
     ex_complete"
    by (simp only: ex_run_json ex_run_layer ex_run_checksum snd_conv)
  have a: "authorized ?r" by (simp add: ex_request_def)
  have v: "passes_validation ex_env ?r ex_complete (JDict [(''id'', JStr ''A'')])"
    by (simp add: passes_validation_def check_images_list_def ex_request_def ex_env_def
          ex_loads_def ex_doc_A_def ex_complete_def)
  have j: "exists (store ex_complete) (image_json_path (image_id ?r))"
    and m: "\<not> exists (store ex_complete) (image_mark_path (image_id ?r))"
    by (simp_all add: ex_request_def ex_complete_def exists_def)
  from complete_image_checksum_rewritten[OF a v j m] run show ?thesis
    by (simp add: ex_request_def ex_complete_def exists_def)
qed

end
